theory Spec2Isabelle
  imports Complex_Main
begin

section \<open>JavaScript strings and errors\<close>

text \<open>
  A JavaScript string is modelled as a list of code units (\<open>string\<close>); the code units of
  the messages of \<open>server.js\<close> all lie below 256 (\<open>CHR 0xFC\<close> is the u-umlaut of the
  German messages).  Binary buffers are modelled the same way.
\<close>

type_synonym bytes = string

text \<open>\<open>String.prototype.startsWith\<close> and \<open>String.prototype.includes\<close>.\<close>

fun startsWith :: "string \<Rightarrow> string \<Rightarrow> bool" where
  "startsWith s [] = True"
| "startsWith [] (p # ps) = False"
| "startsWith (c # cs) (p # ps) = (c = p \<and> startsWith cs ps)"

fun str_includes :: "string \<Rightarrow> string \<Rightarrow> bool" where
  "str_includes [] t = (t = [])"
| "str_includes (c # cs) t = (startsWith (c # cs) t \<or> str_includes cs t)"

text \<open>\<open>s.split(sep)\<close> for a one-character separator, and \<open>xs[i]\<close> (\<open>undefined\<close> out of range).\<close>

fun split_str :: "char \<Rightarrow> string \<Rightarrow> string list" where
  "split_str sep [] = [[]]"
| "split_str sep (c # cs) =
     (if c = sep then [] # split_str sep cs
      else (case split_str sep cs of [] \<Rightarrow> [[c]] | w # ws \<Rightarrow> (c # w) # ws))"

fun index_opt :: "'a list \<Rightarrow> nat \<Rightarrow> 'a option" where
  "index_opt [] i = None"
| "index_opt (x # xs) 0 = Some x"
| "index_opt (x # xs) (Suc i) = index_opt xs i"

text \<open>
  A thrown \<open>Error\<close>: its optional numeric \<open>code\<close> (set by the storage client, absent on
  \<open>new Error(msg)\<close>) and its \<open>message\<close>.
\<close>

datatype js_error = Error (code: "nat option") (message: string)

text \<open>
  Faults raised by the engine or by a library on an \<open>undefined\<close> operand.  Their message
  text is not fixed by \<open>server.js\<close>; it is a parameter of the environment.
\<close>

datatype js_fault = UndefinedPage | UndefinedFieldValue string | UndefinedBase64Part

text \<open>JavaScript truthiness of an optional string: \<open>undefined\<close> and \<open>''\<close> are falsy.\<close>

fun truthy :: "string option \<Rightarrow> bool" where
  "truthy None = False"
| "truthy (Some s) = (s \<noteq> [])"

section \<open>Documents, pages and layout configuration\<close>

text \<open>
  A font handle of the PDF library: the standard Helvetica that both handlers embed, or
  a custom font embedded from the bytes of a font file.
\<close>

datatype pdf_font = Helvetica | CustomFont bytes

datatype png_image = PngImage bytes

text \<open>
  One drawing call on a page.  The colour is \<open>rgb(0, 0, 0)\<close> in every call of the source
  and is left out.
\<close>

datatype draw_op =
    DrawText (op_text: string) (op_x: real) (op_y: real) (op_size: nat) (op_font: pdf_font)
  | DrawImage png_image real real real real

type_synonym page = "draw_op list"
type_synonym pdf_doc = "page list"

text \<open>
  An entry of \<open>pdfConfig\<close> for one signature block (\<open>pdfConfig.mjs\<close> is not part of the
  sources, so the configuration is a parameter).
\<close>

record sig_config =
  cfg_page :: nat
  cfg_x :: real
  cfg_y :: real
  cfg_width :: real
  cfg_height :: real
  cfg_textBlockY :: real
  cfg_label_text :: string

record pdf_config =
  contractSignatureCfg :: sig_config
  withdrawalSignatureCfg :: sig_config
  labels :: "string \<Rightarrow> string"

section \<open>Environment and server state\<close>

text \<open>
  A typed signature \<open>{text, font}\<close> of the request body; a missing \<open>text\<close> is the empty
  string, which is as falsy as \<open>undefined\<close>.
\<close>

datatype keyboard_signature = KeyboardSignature (kb_text: string) (kb_font: string)

datatype webhook_payload =
  SignedHook (hook_pdfUrl: string) (hook_name: "string option")
    (hook_signer_email: "string option")
    (hook_location: "string option") (hook_vorname: "string option") (hook_card_id: "string option")
    (hook_email: "string option") (hook_withdrawalAccepted: bool) (hook_timestamp: string)
  | ConfigHook string string

datatype storage_call =
    Download string string
  | Save string string bytes
  | MakePublic string string

text \<open>
  The collaborators of the server: process configuration, the storage client, the file
  system, the PDF library and the clock.  Each is a function giving the outcome of the
  call, with \<open>Inl\<close> for a thrown error.  \<open>drawText_fault\<close> is the error that
  \<open>page.drawText\<close> throws for a text the Helvetica font cannot encode (\<open>None\<close> for a
  text it can).
\<close>

record env =
  BUCKET_NAME :: string
  MAKE_PUBLIC :: bool
  dirname :: string
  pdfConfig :: pdf_config
  gcs_download :: "string \<Rightarrow> string \<Rightarrow> js_error + bytes"
  gcs_save :: "string \<Rightarrow> string \<Rightarrow> bytes \<Rightarrow> js_error option"
  gcs_makePublic :: "string \<Rightarrow> string \<Rightarrow> js_error option"
  fs_readFile :: "string \<Rightarrow> js_error + bytes"
  fs_writeFile_ok :: bool
  PDFDocument_load :: "bytes \<Rightarrow> js_error + pdf_doc"
  PDFDocument_save :: "pdf_doc \<Rightarrow> bytes"
  drawText_fault :: "string \<Rightarrow> js_error option"
  embedPng :: "bytes \<Rightarrow> js_error + png_image"
  base64_decode :: "string \<Rightarrow> bytes"
  localeDate :: string
  isoTimestamp :: string
  uuidv4 :: string
  dataUriToBuffer :: "string \<Rightarrow> js_error + bytes"
  webhookUrlParams :: "string option \<Rightarrow> js_error + (string option \<times> string option \<times> string option)"
  faultMessage :: "js_fault \<Rightarrow> string"

text \<open>A record of \<open>pdfStore\<close>, as \<open>/api/pdf-upload\<close> writes it.\<close>

record pdf_data =
  pdfUrl :: "string option"
  signUrl :: string
  webhookUrl :: string
  vorname :: "string option"
  card_id :: "string option"
  pd_email :: "string option"

text \<open>
  The mutable state: the global \<open>pdfStore\<close> object, the content of \<open>pdfStore.json\<close>
  (\<open>None\<close> while the file does not exist), and the calls made so far to the storage
  backend and to the webhook.
\<close>

record world =
  pdfStore :: "string \<rightharpoonup> pdf_data"
  storeFile :: "(string \<rightharpoonup> pdf_data) option"
  gcs_calls :: "storage_call list"
  webhook_calls :: "webhook_payload list"

section \<open>Blob locations: \<open>downloadPdfFromGcs\<close> and \<open>storePdfInBucket\<close>\<close>

text \<open>
  The two regular expressions of \<open>downloadPdfFromGcs\<close> share the tail
  \<open>([^\/]+)\/(.+)$\<close>: a non-empty run without a slash, a slash, and a non-empty rest in
  which \<open>.\<close> matches every code unit but a line terminator.  Of the four line
  terminators of the language, line feed and carriage return are code units of the model;
  the two above 255 are not.
\<close>

definition line_terminator :: "char \<Rightarrow> bool" where
  "line_terminator c = (c = CHR 0x0A \<or> c = CHR 0x0D)"

definition match_bucket_path :: "string \<Rightarrow> (string \<times> string) option" where
  "match_bucket_path rest =
     (let bucketName = takeWhile (\<lambda>c. c \<noteq> CHR ''/'') rest;
          tl0 = dropWhile (\<lambda>c. c \<noteq> CHR ''/'') rest
      in if bucketName = [] then None
         else (case tl0 of
                 [] \<Rightarrow> None
               | _ # filePath \<Rightarrow>
                   if filePath = [] \<or> list_ex line_terminator filePath then None
                   else Some (bucketName, filePath)))"

definition match_gs :: "string \<Rightarrow> (string \<times> string) option" where
  "match_gs s = (if startsWith s ''gs://'' then match_bucket_path (drop 5 s) else None)"

definition match_https :: "string \<Rightarrow> (string \<times> string) option" where
  "match_https s =
     (if startsWith s ''https://storage.googleapis.com/''
      then match_bucket_path (drop 31 s) else None)"

text \<open>Lines 640 to 657: the extraction of bucket and file path.\<close>

definition parseLocation :: "string \<Rightarrow> string \<Rightarrow> js_error + (string \<times> string)" where
  "parseLocation bucket_name gcsPathOrUrl =
     (if startsWith gcsPathOrUrl ''gs://'' then
        (case match_gs gcsPathOrUrl of
           None \<Rightarrow> Inl (Error None (''Invalid GCS URI format: '' @ gcsPathOrUrl))
         | Some (bucketName, filePath) \<Rightarrow> Inr (bucketName, filePath))
      else if startsWith gcsPathOrUrl ''https://storage.googleapis.com/'' then
        (case match_https gcsPathOrUrl of
           None \<Rightarrow> Inl (Error None (''Invalid GCS public URL format: '' @ gcsPathOrUrl))
         | Some (bucketName, filePath) \<Rightarrow>
             if bucketName \<noteq> bucket_name then Inl (Error None ''Invalid bucket in public URL.'')
             else Inr (bucketName, filePath))
      else Inl (Error None (''Unsupported PDF URL format for download: '' @ gcsPathOrUrl)))"

text \<open>Lines 637 to 667: the body of the \<open>try\<close> block.\<close>

definition download_try :: "env \<Rightarrow> string \<Rightarrow> world \<Rightarrow> world \<times> (js_error + bytes)" where
  "download_try e gcsPathOrUrl w =
     (case parseLocation (BUCKET_NAME e) gcsPathOrUrl of
        Inl err \<Rightarrow> (w, Inl err)
      | Inr (bucketName, filePath) \<Rightarrow>
          if bucketName \<noteq> BUCKET_NAME e then
            (w, Inl (Error None (''Cannot download from bucket '' @ bucketName @
                                 '', expected '' @ BUCKET_NAME e @ ''.'')))
          else (w\<lparr>gcs_calls := gcs_calls w @ [Download bucketName filePath]\<rparr>,
                gcs_download e bucketName filePath))"

text \<open>Lines 668 to 677: the handler, which replaces every error by one of three messages.\<close>

definition download_catch :: "string \<Rightarrow> js_error \<Rightarrow> js_error" where
  "download_catch gcsPathOrUrl err =
     (if code err = Some 404 \<or> str_includes (message err) ''Not Found'' then
        Error None (''PDF not found at GCS location: '' @ gcsPathOrUrl @ ''.'')
      else if code err = Some 403 \<or>
              str_includes (message err) ''does not have storage.objects.get access'' then
        Error None (''Permission denied to download PDF from GCS: '' @ gcsPathOrUrl @
                    ''. Check Cloud Run service account permissions.'')
      else Error None (''Failed to download PDF from GCS: '' @ gcsPathOrUrl @ ''.''))"

definition downloadPdfFromGcs :: "env \<Rightarrow> string \<Rightarrow> world \<Rightarrow> world \<times> (js_error + bytes)" where
  "downloadPdfFromGcs e gcsPathOrUrl w =
     (case download_try e gcsPathOrUrl w of
        (w', Inl err) \<Rightarrow> (w', Inl (download_catch gcsPathOrUrl err))
      | (w', Inr contents) \<Rightarrow> (w', Inr contents))"

text \<open>The two location formats \<open>storePdfInBucket\<close> returns (lines 704 and 709).\<close>

definition publicUrl :: "string \<Rightarrow> string \<Rightarrow> string" where
  "publicUrl bucket_name destinationFilename =
     ''https://storage.googleapis.com/'' @ bucket_name @ ''/'' @ destinationFilename"

definition gcsUri :: "string \<Rightarrow> string \<Rightarrow> string" where
  "gcsUri bucket_name destinationFilename =
     ''gs://'' @ bucket_name @ ''/'' @ destinationFilename"

definition storePdfInBucket :: "env \<Rightarrow> bytes \<Rightarrow> string \<Rightarrow> world \<Rightarrow> world \<times> (js_error + string)" where
  "storePdfInBucket e pdfBytes destinationFilename w =
     (let w1 = w\<lparr>gcs_calls := gcs_calls w @ [Save (BUCKET_NAME e) destinationFilename pdfBytes]\<rparr>;
          failed = Error None (''Failed to upload PDF to bucket '' @ BUCKET_NAME e @ ''.'')
      in case gcs_save e (BUCKET_NAME e) destinationFilename pdfBytes of
           Some err \<Rightarrow> (w1, Inl failed)
         | None \<Rightarrow>
             if MAKE_PUBLIC e then
               (let w2 = w1\<lparr>gcs_calls := gcs_calls w1 @ [MakePublic (BUCKET_NAME e) destinationFilename]\<rparr>
                in case gcs_makePublic e (BUCKET_NAME e) destinationFilename of
                     Some err \<Rightarrow> (w2, Inl failed)
                   | None \<Rightarrow> (w2, Inr (publicUrl (BUCKET_NAME e) destinationFilename)))
             else (w1, Inr (gcsUri (BUCKET_NAME e) destinationFilename)))"

text \<open>\<open>savePdfStore\<close> (lines 275 to 281): a failed write is logged and swallowed.\<close>

definition savePdfStore :: "env \<Rightarrow> world \<Rightarrow> world" where
  "savePdfStore e w = (if fs_writeFile_ok e then w\<lparr>storeFile := Some (pdfStore w)\<rparr> else w)"

section \<open>Page composition: \<open>addSignatureToPage\<close>\<close>

text \<open>
  The \<open>fields\<close> argument: the text fields by name, and the optional
  \<open>keyboardSignature\<close> that \<open>/api/sign\<close> adds.
\<close>

record fields =
  field_value :: "string \<rightharpoonup> string"
  keyboardSignature :: "keyboard_signature option"

definition spacing :: real where
  "spacing = 25"

definition fieldOrder :: "string list" where
  "fieldOrder = [''fullName'', ''email'', ''location'', ''date'']"

text \<open>\<open>fields.keyboardSignature?.text\<close> as a condition.\<close>

fun kb_truthy :: "keyboard_signature option \<Rightarrow> bool" where
  "kb_truthy None = False"
| "kb_truthy (Some k) = (kb_text k \<noteq> [])"

text \<open>
  \<open>page.drawText(text, {x, y, size, font})\<close>: the library throws for a text the font
  cannot encode, and appends the text to the page otherwise.
\<close>

definition drawText ::
  "env \<Rightarrow> page \<Rightarrow> string \<Rightarrow> real \<Rightarrow> real \<Rightarrow> nat \<Rightarrow> pdf_font \<Rightarrow> js_error + page" where
  "drawText e pg t x y sz fnt =
     (case drawText_fault e t of
        Some err \<Rightarrow> Inl err
      | None \<Rightarrow> Inr (pg @ [DrawText t x y sz fnt]))"

text \<open>
  Lines 96 to 118: the \<open>forEach\<close> over \<open>fieldOrder\<close>.  Drawing an \<open>undefined\<close> value
  throws in the PDF library, after the label of that line has been drawn.
\<close>

fun drawFieldLines ::
  "env \<Rightarrow> (string \<rightharpoonup> string) \<Rightarrow> string list \<Rightarrow> page \<Rightarrow> real \<Rightarrow> js_error + (page \<times> real)" where
  "drawFieldLines e fv [] pg currentY = Inr (pg, currentY)"
| "drawFieldLines e fv (fieldName # rest) pg currentY =
     (let labelText = labels (pdfConfig e) fieldName
      in case drawText e pg labelText 150 currentY 12 Helvetica of
           Inl err \<Rightarrow> Inl err
         | Inr pg1 \<Rightarrow>
             (case fv fieldName of
                None \<Rightarrow> Inl (Error None (faultMessage e (UndefinedFieldValue fieldName)))
              | Some v \<Rightarrow>
                  (case drawText e pg1 v 250 currentY 12 Helvetica of
                     Inl err \<Rightarrow> Inl err
                   | Inr pg2 \<Rightarrow> drawFieldLines e fv rest pg2 (currentY - spacing))))"

text \<open>Lines 123 to 125: the font file chosen by \<open>keyboardSignature.font\<close>.\<close>

definition fontPath :: "env \<Rightarrow> keyboard_signature \<Rightarrow> string" where
  "fontPath e k =
     (if kb_font k = ''DancingScript-Regular''
      then dirname e @ ''/public/fonts/DancingScript-Regular.ttf''
      else dirname e @ ''/public/fonts/BarlowSemiCondensed-Regular.ttf'')"

text \<open>
  Lines 121 to 149: the keyboard signature.  The font file is read, its bytes are not
  used: \<open>keyboardFont\<close> is \<open>helveticaFont\<close>.
\<close>

definition drawKeyboardSignature ::
  "env \<Rightarrow> fields \<Rightarrow> page \<Rightarrow> real \<Rightarrow> js_error + (page \<times> real)" where
  "drawKeyboardSignature e flds pg currentY =
     (case keyboardSignature flds of
        None \<Rightarrow> Inr (pg, currentY)
      | Some k \<Rightarrow>
          if kb_text k = [] then Inr (pg, currentY)
          else (case fs_readFile e (fontPath e k) of
                  Inl err \<Rightarrow> Inl err
                | Inr fontBytes \<Rightarrow>
                    (let keyboardFont = Helvetica
                     in case drawText e pg ''Unterschrift per Tastatur:'' 150 currentY 12
                               Helvetica of
                          Inl err \<Rightarrow> Inl err
                        | Inr pg1 \<Rightarrow>
                            (case drawText e pg1 (kb_text k) 150 (currentY - spacing) 16
                                    keyboardFont of
                               Inl err \<Rightarrow> Inl err
                             | Inr pg2 \<Rightarrow> Inr (pg2, currentY - spacing - spacing)))))"

text \<open>Lines 151 to 172: the drawn signature.\<close>

definition drawSignaturePad ::
  "env \<Rightarrow> sig_config \<Rightarrow> string option \<Rightarrow> page \<Rightarrow> real \<Rightarrow> js_error + page" where
  "drawSignaturePad e signatureConfig signatureData pg currentY =
     (case signatureData of
        None \<Rightarrow> Inr pg
      | Some sd \<Rightarrow>
          if sd = [] then Inr pg
          else (case drawText e pg ''Unterschrift Signaturfeld:'' 150 currentY 12 Helvetica of
                  Inl err \<Rightarrow> Inl err
                | Inr pg1 \<Rightarrow>
                    (case index_opt (split_str CHR '','' sd) 1 of
                       None \<Rightarrow> Inl (Error None (faultMessage e UndefinedBase64Part))
                     | Some b64 \<Rightarrow>
                         (case embedPng e (base64_decode e b64) of
                            Inl err \<Rightarrow> Inl err
                          | Inr signatureImage \<Rightarrow>
                              Inr (pg1 @ [DrawImage signatureImage (cfg_x signatureConfig)
                                            (cfg_y signatureConfig) (cfg_width signatureConfig)
                                            (cfg_height signatureConfig)])))))"

text \<open>Lines 80 to 172: the body of the \<open>try\<close> block; the page is \<open>undefined\<close> (\<open>None\<close>)
  when the configured page index is outside the document.\<close>

definition addSignatureToPage_try ::
  "env \<Rightarrow> page option \<Rightarrow> sig_config \<Rightarrow> string option \<Rightarrow> fields \<Rightarrow> js_error + page" where
  "addSignatureToPage_try e page_opt signatureConfig signatureData flds =
     (case page_opt of
        None \<Rightarrow> Inl (Error None (faultMessage e UndefinedPage))
      | Some pg \<Rightarrow>
          (let startY = cfg_textBlockY signatureConfig
           in case drawText e pg (cfg_label_text signatureConfig) 150 startY 12 Helvetica of
                Inl err \<Rightarrow> Inl err
              | Inr pg0 \<Rightarrow>
                  (case drawFieldLines e (field_value flds) fieldOrder pg0 (startY - spacing) of
                     Inl err \<Rightarrow> Inl err
                   | Inr (pg1, y1) \<Rightarrow>
                       (case drawKeyboardSignature e flds pg1 y1 of
                          Inl err \<Rightarrow> Inl err
                        | Inr (pg2, y2) \<Rightarrow>
                            drawSignaturePad e signatureConfig signatureData pg2 y2))))"

definition msg_Unterschrift :: string where
  "msg_Unterschrift = ''Fehler beim Einf'' @ [CHR 0xFC] @ ''gen der Unterschrift: ''"

text \<open>Lines 78 to 176: every error of the body is rethrown with the prefix of line 174.\<close>

definition addSignatureToPage ::
  "env \<Rightarrow> page option \<Rightarrow> sig_config \<Rightarrow> string option \<Rightarrow> fields \<Rightarrow> js_error + page" where
  "addSignatureToPage e page_opt signatureConfig signatureData flds =
     (case addSignatureToPage_try e page_opt signatureConfig signatureData flds of
        Inl err \<Rightarrow> Inl (Error None (msg_Unterschrift @ message err))
      | Inr pg \<Rightarrow> Inr pg)"

section \<open>The request handlers\<close>

text \<open>The keys of the request body that the two signing handlers read.\<close>

record sign_request =
  fullName :: "string option"
  location :: "string option"
  email :: "string option"
  signature :: "string option"
  withdrawalAccepted :: bool
  withdrawalSignature :: "string option"
  pdfId :: "string option"
  contractKeyboardSignature :: "keyboard_signature option"
  withdrawalKeyboardSignature :: "keyboard_signature option"
  date :: "string option"

datatype response_body =
    ErrorJson string
  | PdfUrlJson string
  | ReceivedJson sign_request
  | UploadJson string string
  | PlainText string

datatype response = Response (status: nat) (body: response_body)

definition msg_AlleFelder :: string where
  "msg_AlleFelder = ''Alle Felder m'' @ [CHR 0xFC] @ ''ssen ausgef'' @ [CHR 0xFC] @ ''llt werden.''"

definition msg_nicht_gefunden :: string where
  "msg_nicht_gefunden = ''PDF nicht gefunden oder ung'' @ [CHR 0xFC] @ ''ltige ID.''"

definition msg_Speicherort :: string where
  "msg_Speicherort = ''Interner Serverfehler: PDF-Speicherort nicht gefunden.''"

definition msg_Vertragsunterschrift :: string where
  "msg_Vertragsunterschrift = ''Fehler beim Einf'' @ [CHR 0xFC] @ ''gen der Vertragsunterschrift: ''"

definition msg_Widerrufsunterschrift :: string where
  "msg_Widerrufsunterschrift = ''Fehler beim Einf'' @ [CHR 0xFC] @ ''gen der Widerrufsunterschrift: ''"

definition msg_Widerruf_fehlt :: string where
  "msg_Widerruf_fehlt = ''Unterschrift f'' @ [CHR 0xFC] @ ''r das Erl'' @ [CHR 0xF6] @
     ''schen des Widerrufsrechts fehlt.''"

text \<open>
  \<open>await addSignatureToPage(pages[cfg.page], cfg, ...)\<close>: the page object is shared with
  the document, so what is drawn on it is drawn in the document.
\<close>

definition addSignatureToDoc ::
  "env \<Rightarrow> pdf_doc \<Rightarrow> sig_config \<Rightarrow> string option \<Rightarrow> fields \<Rightarrow> js_error + pdf_doc" where
  "addSignatureToDoc e pages signatureConfig signatureData flds =
     (case addSignatureToPage e (index_opt pages (cfg_page signatureConfig)) signatureConfig
             signatureData flds of
        Inl err \<Rightarrow> Inl err
      | Inr pg \<Rightarrow> Inr (pages[cfg_page signatureConfig := pg]))"

subsection \<open>\<open>POST /api/sign\<close>\<close>

text \<open>Lines 497 to 502.\<close>

definition baseFields :: "env \<Rightarrow> sign_request \<Rightarrow> (string \<rightharpoonup> string)" where
  "baseFields e req =
     (\<lambda>k. if k = ''fullName'' then fullName req
          else if k = ''email'' then email req
          else if k = ''location'' then location req
          else if k = ''date'' then Some (localeDate e)
          else None)"

text \<open>Lines 506 to 509 and 514.\<close>

definition contractFields :: "env \<Rightarrow> sign_request \<Rightarrow> fields" where
  "contractFields e req =
     \<lparr>field_value = baseFields e req,
      keyboardSignature = (if kb_truthy (contractKeyboardSignature req)
                           then contractKeyboardSignature req else None)\<rparr>"

definition contractSignatureData :: "sign_request \<Rightarrow> string option" where
  "contractSignatureData req =
     (if kb_truthy (contractKeyboardSignature req) then None else signature req)"

text \<open>Lines 527 to 530 and 536.\<close>

definition withdrawalFields :: "env \<Rightarrow> sign_request \<Rightarrow> fields" where
  "withdrawalFields e req =
     \<lparr>field_value = baseFields e req,
      keyboardSignature = (if kb_truthy (withdrawalKeyboardSignature req)
                           then withdrawalKeyboardSignature req else None)\<rparr>"

definition withdrawalSignatureData :: "sign_request \<Rightarrow> string option" where
  "withdrawalSignatureData req =
     (if kb_truthy (withdrawalKeyboardSignature req) then None else withdrawalSignature req)"

text \<open>Lines 496 to 588: composition, upload, webhook and response.\<close>

definition sign_document ::
  "env \<Rightarrow> sign_request \<Rightarrow> string \<Rightarrow> pdf_data \<Rightarrow> pdf_doc \<Rightarrow> world \<Rightarrow> world \<times> response" where
  "sign_document e req pid pdfData pdfDoc w =
     (case addSignatureToDoc e pdfDoc (contractSignatureCfg (pdfConfig e))
             (contractSignatureData req) (contractFields e req) of
        Inl err \<Rightarrow> (w, Response 500 (ErrorJson (msg_Vertragsunterschrift @ message err)))
      | Inr doc1 \<Rightarrow>
          (case (if withdrawalAccepted req
                 then addSignatureToDoc e doc1 (withdrawalSignatureCfg (pdfConfig e))
                        (withdrawalSignatureData req) (withdrawalFields e req)
                 else Inr doc1) of
             Inl err \<Rightarrow> (w, Response 500 (ErrorJson (msg_Widerrufsunterschrift @ message err)))
           | Inr doc2 \<Rightarrow>
               (let signedPdfBytes = PDFDocument_save e doc2;
                    signedDestinationFilename = ''signed/signed_'' @ pid @ ''.pdf''
                in case storePdfInBucket e signedPdfBytes signedDestinationFilename w of
                     (w1, Inl err) \<Rightarrow> (w1, Response 500 (ErrorJson (message err)))
                   | (w1, Inr signedPdfUrl) \<Rightarrow>
                       (w1\<lparr>webhook_calls := webhook_calls w1 @
                             [SignedHook signedPdfUrl (fullName req) (email req) (location req)
                                (vorname pdfData) (card_id pdfData) (pd_email pdfData)
                                (withdrawalAccepted req) (isoTimestamp e)]\<rparr>,
                        Response 200 (PdfUrlJson signedPdfUrl)))))"

text \<open>
  \<open>pdfStore\<close> is a plain object, so \<open>pdfStore[pdfId]\<close> also finds what the object inherits
  from \<open>Object.prototype\<close>: for these keys, when the store has no record of its own, the
  value is truthy and has no \<open>pdfUrl\<close>.
\<close>

definition object_prototype_keys :: "string list" where
  "object_prototype_keys =
     [''constructor'', ''__proto__'', ''hasOwnProperty'', ''isPrototypeOf'',
      ''propertyIsEnumerable'', ''toLocaleString'', ''toString'', ''valueOf'',
      ''__defineGetter__'', ''__defineSetter__'', ''__lookupGetter__'', ''__lookupSetter__'']"

text \<open>
  Lines 458 to 494: validation, lookup in \<open>pdfStore\<close>, download and parsing of the
  original document.  \<open>Inl\<close> is a response sent without composing anything.
\<close>

definition sign_prepare ::
  "env \<Rightarrow> sign_request \<Rightarrow> world \<Rightarrow>
     (world \<times> response) + (string \<times> pdf_data \<times> pdf_doc \<times> world)" where
  "sign_prepare e req w =
     (if \<not> truthy (fullName req) \<or> \<not> truthy (location req) \<or> \<not> truthy (email req) then
        Inl (w, Response 400 (ErrorJson msg_AlleFelder))
      else (case pdfId req of
              None \<Rightarrow> Inl (w, Response 200 (ReceivedJson req))
            | Some pid \<Rightarrow>
                if pid = [] then Inl (w, Response 200 (ReceivedJson req))
                else (case pdfStore w pid of
                        None \<Rightarrow>
                          if pid \<in> set object_prototype_keys
                          then Inl (w, Response 500 (ErrorJson msg_Speicherort))
                          else Inl (w, Response 404 (ErrorJson msg_nicht_gefunden))
                      | Some pdfData \<Rightarrow>
                          (case pdfUrl pdfData of
                             None \<Rightarrow> Inl (w, Response 500 (ErrorJson msg_Speicherort))
                           | Some url \<Rightarrow>
                               if url = [] then Inl (w, Response 500 (ErrorJson msg_Speicherort))
                               else (case downloadPdfFromGcs e url w of
                                       (w1, Inl err) \<Rightarrow>
                                         Inl (w1, Response 500 (ErrorJson (message err)))
                                     | (w1, Inr originalPdfBytes) \<Rightarrow>
                                         (case PDFDocument_load e originalPdfBytes of
                                            Inl err \<Rightarrow>
                                              Inl (w1, Response 500 (ErrorJson (message err)))
                                          | Inr pdfDoc \<Rightarrow> Inr (pid, pdfData, pdfDoc, w1)))))))"

text \<open>Lines 444 to 594.\<close>

definition api_sign :: "env \<Rightarrow> sign_request \<Rightarrow> world \<Rightarrow> world \<times> response" where
  "api_sign e req w =
     (case sign_prepare e req w of
        Inl r \<Rightarrow> r
      | Inr (pid, pdfData, pdfDoc, w1) \<Rightarrow> sign_document e req pid pdfData pdfDoc w1)"

subsection \<open>\<open>POST /api/pdf-config\<close>\<close>

text \<open>Lines 362 to 367.\<close>

definition textFields :: "env \<Rightarrow> sign_request \<Rightarrow> fields" where
  "textFields e req =
     \<lparr>field_value =
        (\<lambda>k. if k = ''fullName'' then fullName req
             else if k = ''email'' then email req
             else if k = ''location'' then location req
             else if k = ''date'' then (if truthy (date req) then date req else Some (localeDate e))
             else None),
      keyboardSignature = None\<rparr>"

text \<open>Lines 334 to 440.\<close>

definition api_pdf_config :: "env \<Rightarrow> sign_request \<Rightarrow> world \<Rightarrow> world \<times> response" where
  "api_pdf_config e req w =
     (if \<not> truthy (fullName req) \<or> \<not> truthy (location req) \<or> \<not> truthy (email req) \<or>
         \<not> truthy (signature req) then
        (w, Response 400 (ErrorJson msg_AlleFelder))
      else if withdrawalAccepted req \<and> \<not> truthy (withdrawalSignature req) then
        (w, Response 400 (ErrorJson msg_Widerruf_fehlt))
      else (case fs_readFile e (dirname e @ ''/templates/DVV-All-Time-Best-Media.pdf'') of
              Inl err \<Rightarrow> (w, Response 500 (ErrorJson (message err)))
            | Inr templateBytes \<Rightarrow>
                (case PDFDocument_load e templateBytes of
                   Inl err \<Rightarrow> (w, Response 500 (ErrorJson (message err)))
                 | Inr pdfDoc \<Rightarrow>
                     (case (if withdrawalAccepted req \<and> truthy (withdrawalSignature req)
                            then addSignatureToDoc e pdfDoc (withdrawalSignatureCfg (pdfConfig e))
                                   (withdrawalSignature req) (textFields e req)
                            else Inr pdfDoc) of
                        Inl err \<Rightarrow>
                          (w, Response 500 (ErrorJson (msg_Widerrufsunterschrift @ message err)))
                      | Inr doc1 \<Rightarrow>
                          (case (if truthy (signature req)
                                 then addSignatureToDoc e doc1 (contractSignatureCfg (pdfConfig e))
                                        (signature req) (textFields e req)
                                 else Inr doc1) of
                             Inl err \<Rightarrow>
                               (w, Response 500 (ErrorJson (msg_Vertragsunterschrift @ message err)))
                           | Inr doc2 \<Rightarrow>
                               (let pdfBytes = PDFDocument_save e doc2;
                                    destinationFilename =
                                      ''contracts/ausbildungsvertrag_'' @ uuidv4 e @ ''.pdf''
                                in case storePdfInBucket e pdfBytes destinationFilename w of
                                     (w1, Inl err) \<Rightarrow>
                                       (w1, Response 500 (ErrorJson (message err)))
                                   | (w1, Inr url) \<Rightarrow>
                                       (w1\<lparr>webhook_calls := webhook_calls w1 @
                                             [ConfigHook url (isoTimestamp e)]\<rparr>,
                                        Response 200 (PdfUrlJson url))))))))"

subsection \<open>\<open>POST /api/pdf-upload\<close>\<close>

text \<open>
  The body of the handler (lines 283 to 332), after the API key check and the multipart
  parser: the uploaded file if there is one, else the \<open>base64\<close> field, and the
  \<open>webhookUrl\<close> field.  \<open>webhookUrlParams\<close> stands for \<open>new URL(...)\<close> and the three
  \<open>searchParams.get\<close> calls.
\<close>

record upload_request =
  file_buffer :: "bytes option"
  base64 :: "string option"
  webhookUrlField :: "string option"

text \<open>\<open>v || null\<close> on an optional string.\<close>

definition or_null :: "string option \<Rightarrow> string option" where
  "or_null v = (if truthy v then v else None)"

text \<open>Lines 296 to 326: upload, record creation and persistence.\<close>

definition upload_document :: "env \<Rightarrow> upload_request \<Rightarrow> bytes \<Rightarrow> world \<Rightarrow> world \<times> response" where
  "upload_document e req pdfBytes w =
     (let pdfId = uuidv4 e;
          destinationFilename = ''uploads/uploaded_'' @ pdfId @ ''.pdf''
      in case storePdfInBucket e pdfBytes destinationFilename w of
           (w1, Inl err) \<Rightarrow> (w1, Response 500 (ErrorJson (message err)))
         | (w1, Inr url) \<Rightarrow>
             (let signUrl = ''/sign/'' @ pdfId
              in case webhookUrlParams e (webhookUrlField req) of
                   Inl err \<Rightarrow> (w1, Response 500 (ErrorJson (message err)))
                 | Inr (p_vorname, p_card_id, p_email) \<Rightarrow>
                     (let w2 = w1\<lparr>pdfStore := (pdfStore w1)(pdfId \<mapsto>
                                   \<lparr>pdfUrl = Some url, signUrl = signUrl,
                                    webhookUrl = ''https://hook.eu2.make.com/shqssx7au2d7m7fu4hz86qiojoh65k40'',
                                    vorname = or_null p_vorname, card_id = or_null p_card_id,
                                    pd_email = or_null p_email\<rparr>)\<rparr>
                      in (savePdfStore e w2, Response 200 (UploadJson url signUrl)))))"

text \<open>Lines 283 to 332.\<close>

definition api_pdf_upload :: "env \<Rightarrow> upload_request \<Rightarrow> world \<Rightarrow> world \<times> response" where
  "api_pdf_upload e req w =
     (case file_buffer req of
        Some buffer \<Rightarrow> upload_document e req buffer w
      | None \<Rightarrow>
          if truthy (base64 req) then
            (case base64 req of
               None \<Rightarrow> (w, Response 400 (PlainText ''No PDF file or base64 data provided''))
             | Some b \<Rightarrow>
                 (case dataUriToBuffer e b of
                    Inl err \<Rightarrow> (w, Response 500 (ErrorJson (message err)))
                  | Inr pdfBytes \<Rightarrow> upload_document e req pdfBytes w))
          else (w, Response 400 (PlainText ''No PDF file or base64 data provided'')))"

section \<open>The layout of a block, as the specification describes it\<close>

text \<open>
  The lines of a block, to compare with what \<open>addSignatureToPage\<close> draws: line \<open>n\<close> of a
  block lies \<open>n\<close> times 25 units below \<open>textBlockY\<close>; a field line is a label at 150 and a
  value at 250; a block is its title line and the four field lines in the order
  \<open>fullName\<close>, \<open>email\<close>, \<open>location\<close>, \<open>date\<close>; a typed signature is a label line and the
  text one line below it; a drawn signature is a label line and the image in the
  rectangle of the configuration.
\<close>

definition line_y :: "sig_config \<Rightarrow> nat \<Rightarrow> real" where
  "line_y cfg n = cfg_textBlockY cfg - real n * 25"

definition field_line :: "env \<Rightarrow> string \<Rightarrow> string \<Rightarrow> real \<Rightarrow> draw_op list" where
  "field_line e fieldName v y =
     [DrawText (labels (pdfConfig e) fieldName) 150 y 12 Helvetica, DrawText v 250 y 12 Helvetica]"

definition block_lines ::
  "env \<Rightarrow> sig_config \<Rightarrow> string \<Rightarrow> string \<Rightarrow> string \<Rightarrow> string \<Rightarrow> draw_op list" where
  "block_lines e cfg v1 v2 v3 v4 =
     DrawText (cfg_label_text cfg) 150 (line_y cfg 0) 12 Helvetica #
     field_line e ''fullName'' v1 (line_y cfg 1) @
     field_line e ''email'' v2 (line_y cfg 2) @
     field_line e ''location'' v3 (line_y cfg 3) @
     field_line e ''date'' v4 (line_y cfg 4)"

definition typed_block :: "keyboard_signature \<Rightarrow> real \<Rightarrow> draw_op list" where
  "typed_block k y =
     [DrawText ''Unterschrift per Tastatur:'' 150 y 12 Helvetica,
      DrawText (kb_text k) 150 (y - 25) 16 Helvetica]"

definition drawn_block :: "sig_config \<Rightarrow> png_image \<Rightarrow> real \<Rightarrow> draw_op list" where
  "drawn_block cfg img y =
     [DrawText ''Unterschrift Signaturfeld:'' 150 y 12 Helvetica,
      DrawImage img (cfg_x cfg) (cfg_y cfg) (cfg_width cfg) (cfg_height cfg)]"

text \<open>The eight texts of the four field lines can all be encoded.\<close>

definition fields_encodable :: "env \<Rightarrow> string \<Rightarrow> string \<Rightarrow> string \<Rightarrow> string \<Rightarrow> bool" where
  "fields_encodable e v1 v2 v3 v4 =
     (drawText_fault e (labels (pdfConfig e) ''fullName'') = None \<and> drawText_fault e v1 = None \<and>
      drawText_fault e (labels (pdfConfig e) ''email'') = None \<and> drawText_fault e v2 = None \<and>
      drawText_fault e (labels (pdfConfig e) ''location'') = None \<and> drawText_fault e v3 = None \<and>
      drawText_fault e (labels (pdfConfig e) ''date'') = None \<and> drawText_fault e v4 = None)"

text \<open>
  A drawn payload that cannot be decoded: the data URI has no part after a comma, or the
  PDF library rejects the decoded bytes.
\<close>

definition undecodable :: "env \<Rightarrow> string \<Rightarrow> bool" where
  "undecodable e sd =
     (case index_opt (split_str CHR '','' sd) 1 of
        None \<Rightarrow> True
      | Some b64 \<Rightarrow> isl (embedPng e (base64_decode e b64)))"

text \<open>
  The four places where a handler calls \<open>addSignatureToPage\<close> (lines 511, 533, 390 and
  372), with the configuration, the signature data and the fields each one passes, the
  typed signature of the request it belongs to, and the prefix with which the handler
  reports its failure.
\<close>

datatype block_call = SignContract | SignWithdrawal | ConfigContract | ConfigWithdrawal

fun call_config :: "env \<Rightarrow> block_call \<Rightarrow> sig_config" where
  "call_config e SignContract = contractSignatureCfg (pdfConfig e)"
| "call_config e SignWithdrawal = withdrawalSignatureCfg (pdfConfig e)"
| "call_config e ConfigContract = contractSignatureCfg (pdfConfig e)"
| "call_config e ConfigWithdrawal = withdrawalSignatureCfg (pdfConfig e)"

fun call_signatureData :: "sign_request \<Rightarrow> block_call \<Rightarrow> string option" where
  "call_signatureData req SignContract = contractSignatureData req"
| "call_signatureData req SignWithdrawal = withdrawalSignatureData req"
| "call_signatureData req ConfigContract = signature req"
| "call_signatureData req ConfigWithdrawal = withdrawalSignature req"

fun call_fields :: "env \<Rightarrow> sign_request \<Rightarrow> block_call \<Rightarrow> fields" where
  "call_fields e req SignContract = contractFields e req"
| "call_fields e req SignWithdrawal = withdrawalFields e req"
| "call_fields e req ConfigContract = textFields e req"
| "call_fields e req ConfigWithdrawal = textFields e req"

fun call_keyboard :: "sign_request \<Rightarrow> block_call \<Rightarrow> keyboard_signature option" where
  "call_keyboard req SignContract = contractKeyboardSignature req"
| "call_keyboard req SignWithdrawal = withdrawalKeyboardSignature req"
| "call_keyboard req ConfigContract = None"
| "call_keyboard req ConfigWithdrawal = None"

fun block_message :: "block_call \<Rightarrow> string" where
  "block_message SignContract = msg_Vertragsunterschrift"
| "block_message SignWithdrawal = msg_Widerrufsunterschrift"
| "block_message ConfigContract = msg_Vertragsunterschrift"
| "block_message ConfigWithdrawal = msg_Widerrufsunterschrift"

section \<open>Predicates and fixtures of the statements\<close>

text \<open>The three messages with which lines 642, 647 and 656 reject a location string.\<close>

definition invalidFormatError :: "string \<Rightarrow> js_error \<Rightarrow> bool" where
  "invalidFormatError s err =
     (err = Error None (''Invalid GCS URI format: '' @ s) \<or>
      err = Error None (''Invalid GCS public URL format: '' @ s) \<or>
      err = Error None (''Unsupported PDF URL format for download: '' @ s))"

text \<open>The two messages with which lines 653 and 662 reject a foreign bucket.\<close>

definition untrustedBucketError :: "string \<Rightarrow> string \<Rightarrow> js_error \<Rightarrow> bool" where
  "untrustedBucketError bucket_name bucketName err =
     (err = Error None ''Invalid bucket in public URL.'' \<or>
      err = Error None (''Cannot download from bucket '' @ bucketName @ '', expected '' @
                         bucket_name @ ''.''))"

text \<open>A concrete configuration, environment and state, on which the theorems are evaluated.\<close>

definition example_config :: pdf_config where
  "example_config =
     \<lparr>contractSignatureCfg =
        \<lparr>cfg_page = 1, cfg_x = 150, cfg_y = 100, cfg_width = 200, cfg_height = 50,
         cfg_textBlockY = 400, cfg_label_text = ''Vertrag''\<rparr>,
      withdrawalSignatureCfg =
        \<lparr>cfg_page = 0, cfg_x = 150, cfg_y = 120, cfg_width = 200, cfg_height = 50,
         cfg_textBlockY = 300, cfg_label_text = ''Widerruf''\<rparr>,
      labels = (\<lambda>k. k @ '':'')\<rparr>"

definition example_env :: env where
  "example_env =
     \<lparr>BUCKET_NAME = ''docs'', MAKE_PUBLIC = False, dirname = ''/app'',
      pdfConfig = example_config,
      gcs_download = (\<lambda>b p. if b = ''docs'' \<and> p = ''uploads/uploaded_id1.pdf'' then Inr ''%PDF''
                            else Inl (Error (Some 404) ''No such object'')),
      gcs_save = (\<lambda>b p c. None),
      gcs_makePublic = (\<lambda>b p. None),
      fs_readFile =
        (\<lambda>p. if p = ''/app/public/fonts/DancingScript-Regular.ttf'' then Inr ''dancing''
             else if p = ''/app/public/fonts/BarlowSemiCondensed-Regular.ttf'' then Inr ''barlow''
             else if p = ''/app/templates/DVV-All-Time-Best-Media.pdf'' then Inr ''%PDF''
             else Inl (Error None ''ENOENT: no such file or directory'')),
      fs_writeFile_ok = True,
      PDFDocument_load = (\<lambda>b. if b = ''%PDF'' then Inr [[], []]
                               else Inl (Error None ''No PDF header found'')),
      PDFDocument_save = (\<lambda>d. ''%PDF-signed''),
      drawText_fault =
        (\<lambda>t. if CHR 0x01 \<in> set t then Some (Error None ''WinAnsi cannot encode (0x0001)'')
             else None),
      embedPng = (\<lambda>b. if b = ''PNG'' then Inr (PngImage b)
                       else Inl (Error None ''The input is not a PNG file!'')),
      base64_decode = (\<lambda>s. if s = ''UE5H'' then ''PNG'' else []),
      localeDate = ''3.11.2026'',
      isoTimestamp = ''2026-11-03T00:00:00.000Z'',
      uuidv4 = ''u1'',
      dataUriToBuffer = (\<lambda>s. Inr ''%PDF''),
      webhookUrlParams =
        (\<lambda>u. case u of None \<Rightarrow> Inl (Error None ''Invalid URL'')
                      | Some v \<Rightarrow> Inr (Some ''Jane'', None, None)),
      faultMessage = (\<lambda>f. ''TypeError'')\<rparr>"

definition example_pdf_data :: pdf_data where
  "example_pdf_data =
     \<lparr>pdfUrl = Some ''gs://docs/uploads/uploaded_id1.pdf'', signUrl = ''/sign/id1'',
      webhookUrl = ''https://hook.example'', vorname = Some ''Jane'', card_id = None,
      pd_email = None\<rparr>"

definition example_world :: world where
  "example_world =
     \<lparr>pdfStore = [''id1'' \<mapsto> example_pdf_data], storeFile = None, gcs_calls = [],
      webhook_calls = []\<rparr>"

definition example_request :: sign_request where
  "example_request =
     \<lparr>fullName = Some ''Jane Doe'', location = Some ''Berlin'', email = Some ''j@x.com'',
      signature = Some ''data:image/png;base64,UE5H'', withdrawalAccepted = False,
      withdrawalSignature = None, pdfId = Some ''id1'', contractKeyboardSignature = None,
      withdrawalKeyboardSignature = None, date = None\<rparr>"

text \<open>A request with a typed contract signature in the given font, beside the drawn one.\<close>

definition typed_request :: "string \<Rightarrow> sign_request" where
  "typed_request font =
     example_request\<lparr>contractKeyboardSignature := Some (KeyboardSignature ''Jane Doe'' font)\<rparr>"

text \<open>An environment in which the decorative font file alone is missing.\<close>

definition missing_decorative_env :: env where
  "missing_decorative_env =
     example_env\<lparr>fs_readFile :=
       (\<lambda>p. if p = ''/app/public/fonts/DancingScript-Regular.ttf''
            then Inl (Error None ''ENOENT: no such file or directory'')
            else fs_readFile example_env p)\<rparr>"

text \<open>A request whose name holds a character that Helvetica cannot encode.\<close>

definition unencodable_name_request :: sign_request where
  "unencodable_name_request = example_request\<lparr>fullName := Some [CHR ''J'', CHR 0x01]\<rparr>"

text \<open>A request that accepts the withdrawal waiver and signs only the contract.\<close>

definition unsigned_withdrawal_request :: sign_request where
  "unsigned_withdrawal_request = example_request\<lparr>withdrawalAccepted := True\<rparr>"

text \<open>A data URI whose payload is not a PNG image, alone and beside a typed signature.\<close>

definition broken_png :: string where
  "broken_png = ''data:image/png;base64,AAAA''"

definition broken_drawn_request :: sign_request where
  "broken_drawn_request = example_request\<lparr>signature := Some broken_png\<rparr>"

definition typed_and_broken_drawn_request :: sign_request where
  "typed_and_broken_drawn_request =
     example_request\<lparr>signature := Some broken_png,
       contractKeyboardSignature := Some (KeyboardSignature ''Jane Doe'' ''DancingScript-Regular'')\<rparr>"

section \<open>Evaluation of the definitions\<close>

lemmas example_defs =
  example_env_def example_config_def example_pdf_data_def example_request_def
  example_world_def typed_request_def missing_decorative_env_def
  unencodable_name_request_def unsigned_withdrawal_request_def
  broken_png_def broken_drawn_request_def typed_and_broken_drawn_request_def

lemmas compose_defs =
  addSignatureToPage_def addSignatureToPage_try_def drawSignaturePad_def drawText_def
  drawKeyboardSignature_def fontPath_def fieldOrder_def spacing_def contractFields_def
  contractSignatureData_def withdrawalFields_def withdrawalSignatureData_def baseFields_def
  textFields_def msg_Unterschrift_def

lemmas layout_defs = block_lines_def field_line_def line_y_def typed_block_def drawn_block_def

lemmas handler_defs =
  api_sign_def sign_prepare_def sign_document_def addSignatureToDoc_def storePdfInBucket_def
  downloadPdfFromGcs_def download_try_def download_catch_def parseLocation_def match_gs_def
  match_https_def match_bucket_path_def line_terminator_def gcsUri_def publicUrl_def
  api_pdf_config_def object_prototype_keys_def

section \<open>Blob location codec\<close>

lemma startsWith_iff: "startsWith s p \<longleftrightarrow> take (length p) s = p"
  by (induction s p rule: startsWith.induct) auto

lemma startsWith_append [simp]: "startsWith (p @ r) p"
  by (simp add: startsWith_iff)

lemma match_bucket_path_append:
  assumes "b \<noteq> []" "CHR ''/'' \<notin> set b" "p \<noteq> []" "\<not> list_ex line_terminator p"
  shows "match_bucket_path (b @ CHR ''/'' # p) = Some (b, p)"
proof -
  have 1: "takeWhile (\<lambda>c. c \<noteq> CHR ''/'') (b @ CHR ''/'' # p) = b"
    using assms(2) by (induction b) auto
  have 2: "dropWhile (\<lambda>c. c \<noteq> CHR ''/'') (b @ CHR ''/'' # p) = CHR ''/'' # p"
    using assms(2) by (induction b) auto
  show ?thesis
    unfolding match_bucket_path_def 1 2 using assms by simp
qed

lemma match_bucket_path_Some:
  assumes "match_bucket_path r = Some (b, p)"
  shows "r = b @ CHR ''/'' # p \<and> b \<noteq> [] \<and> CHR ''/'' \<notin> set b \<and> p \<noteq> [] \<and> \<not> list_ex line_terminator p"
proof -
  let ?P = "\<lambda>c. c \<noteq> CHR ''/''"
  from assms have b: "b = takeWhile ?P r" and nb: "b \<noteq> []"
    by (auto simp: match_bucket_path_def Let_def split: if_splits list.splits)
  from assms obtain c where d: "dropWhile ?P r = c # p" and p: "p \<noteq> []" "\<not> list_ex line_terminator p"
    by (auto simp: match_bucket_path_def Let_def split: if_splits list.splits)
  have "c = CHR ''/''"
    using hd_dropWhile[of ?P r] d by auto
  moreover have "r = takeWhile ?P r @ dropWhile ?P r" by simp
  moreover have "CHR ''/'' \<notin> set (takeWhile ?P r)"
    using set_takeWhileD by fastforce
  ultimately show ?thesis using b nb d p by metis
qed

lemma match_bucket_path_iff:
  "match_bucket_path r = Some (b, p) \<longleftrightarrow>
     r = b @ CHR ''/'' # p \<and> b \<noteq> [] \<and> CHR ''/'' \<notin> set b \<and> p \<noteq> [] \<and> \<not> list_ex line_terminator p"
  using match_bucket_path_Some match_bucket_path_append by blast

lemma startsWith_drop: "startsWith s p \<Longrightarrow> s = p @ drop (length p) s"
  by (metis append_take_drop_id startsWith_iff)

lemma match_gs_iff:
  "match_gs s = Some (b, p) \<longleftrightarrow>
     s = ''gs://'' @ b @ CHR ''/'' # p \<and> b \<noteq> [] \<and> CHR ''/'' \<notin> set b \<and> p \<noteq> [] \<and> \<not> list_ex line_terminator p"
proof
  assume m: "match_gs s = Some (b, p)"
  then have sw: "startsWith s ''gs://''" and mb: "match_bucket_path (drop 5 s) = Some (b, p)"
    by (auto simp: match_gs_def split: if_splits)
  have len: "length ''gs://'' = 5" by simp
  have "s = ''gs://'' @ drop 5 s" using startsWith_drop[OF sw] by (simp only: len)
  with match_bucket_path_Some[OF mb]
  show "s = ''gs://'' @ b @ CHR ''/'' # p \<and> b \<noteq> [] \<and> CHR ''/'' \<notin> set b \<and> p \<noteq> [] \<and> \<not> list_ex line_terminator p"
    by simp
next
  assume a: "s = ''gs://'' @ b @ CHR ''/'' # p \<and> b \<noteq> [] \<and> CHR ''/'' \<notin> set b \<and> p \<noteq> [] \<and> \<not> list_ex line_terminator p"
  then have "startsWith s ''gs://''" and "drop 5 s = b @ CHR ''/'' # p"
    by simp_all
  then show "match_gs s = Some (b, p)"
    using a by (simp add: match_gs_def match_bucket_path_append)
qed

lemma match_https_iff:
  "match_https s = Some (b, p) \<longleftrightarrow>
     s = ''https://storage.googleapis.com/'' @ b @ CHR ''/'' # p \<and> b \<noteq> [] \<and> CHR ''/'' \<notin> set b \<and> p \<noteq> [] \<and> \<not> list_ex line_terminator p"
proof
  assume m: "match_https s = Some (b, p)"
  then have sw: "startsWith s ''https://storage.googleapis.com/''"
    and mb: "match_bucket_path (drop 31 s) = Some (b, p)"
    by (auto simp: match_https_def split: if_splits)
  have len: "length ''https://storage.googleapis.com/'' = 31" by simp
  have "s = ''https://storage.googleapis.com/'' @ drop 31 s"
    using startsWith_drop[OF sw] by (simp only: len)
  with match_bucket_path_Some[OF mb]
  show "s = ''https://storage.googleapis.com/'' @ b @ CHR ''/'' # p \<and> b \<noteq> [] \<and> CHR ''/'' \<notin> set b \<and> p \<noteq> [] \<and> \<not> list_ex line_terminator p"
    by simp
next
  assume a: "s = ''https://storage.googleapis.com/'' @ b @ CHR ''/'' # p \<and> b \<noteq> [] \<and> CHR ''/'' \<notin> set b \<and> p \<noteq> [] \<and> \<not> list_ex line_terminator p"
  then have "startsWith s ''https://storage.googleapis.com/''" and "drop 31 s = b @ CHR ''/'' # p"
    by simp_all
  then show "match_https s = Some (b, p)"
    using a by (simp add: match_https_def match_bucket_path_append)
qed

text \<open>
  Claim C5.  For a non-empty bucket name without a slash and a non-empty path without a
  line terminator, parsing the \<open>gs://\<close> location that \<open>storePdfInBucket\<close> builds gives
  back the bucket and the path, both for the regular expression of line 641 and for the
  whole parsing step (whatever the configured bucket).
\<close>

theorem gs_location_roundtrip:
  assumes "bucket \<noteq> []" and "CHR ''/'' \<notin> set bucket"
    and "path \<noteq> []" and "\<not> list_ex line_terminator path"
  shows "match_gs (gcsUri bucket path) = Some (bucket, path) \<and>
         parseLocation bucket_name (gcsUri bucket path) = Inr (bucket, path)"
proof -
  have m: "match_gs (gcsUri bucket path) = Some (bucket, path)"
    using assms by (simp add: match_gs_iff gcsUri_def)
  have "startsWith (gcsUri bucket path) ''gs://''"
    by (simp add: gcsUri_def)
  then show ?thesis using m by (simp add: parseLocation_def)
qed

theorem gs_location_roundtrip_witness:
  "match_gs (gcsUri ''docs'' ''signed/signed_id1.pdf'') = Some (''docs'', ''signed/signed_id1.pdf'') \<and>
   parseLocation ''docs'' (gcsUri ''docs'' ''signed/signed_id1.pdf'') = Inr (''docs'', ''signed/signed_id1.pdf'')"
  by (rule gs_location_roundtrip) (simp_all add: line_terminator_def)

lemma not_both_schemes: "startsWith s ''gs://'' \<Longrightarrow> \<not> startsWith s ''https://storage.googleapis.com/''"
  by (cases s) auto

text \<open>
  Claim C6.  A location string matched by neither regular expression is rejected by the
  parsing step with one of the three invalid-format errors.  Whatever the step accepts
  is a match of one of the two expressions; every \<open>gs://\<close> match is accepted, and so is
  every public-URL match whose bucket is the configured one.
\<close>

theorem parseLocation_two_schemes:
  "(match_gs s = None \<and> match_https s = None \<longrightarrow>
      (\<exists>err. parseLocation bucket_name s = Inl err \<and> invalidFormatError s err)) \<and>
   (\<forall>b p. parseLocation bucket_name s = Inr (b, p) \<longrightarrow>
      match_gs s = Some (b, p) \<or> match_https s = Some (b, p)) \<and>
   (\<forall>b p. match_gs s = Some (b, p) \<longrightarrow> parseLocation bucket_name s = Inr (b, p)) \<and>
   (\<forall>p. match_https s = Some (bucket_name, p) \<longrightarrow> parseLocation bucket_name s = Inr (bucket_name, p))"
proof (intro conjI allI impI)
  assume "match_gs s = None \<and> match_https s = None"
  then show "\<exists>err. parseLocation bucket_name s = Inl err \<and> invalidFormatError s err"
    by (simp add: parseLocation_def invalidFormatError_def)
next
  fix b p assume "parseLocation bucket_name s = Inr (b, p)"
  then show "match_gs s = Some (b, p) \<or> match_https s = Some (b, p)"
    by (auto simp: parseLocation_def split: if_splits option.splits)
next
  fix b p assume "match_gs s = Some (b, p)"
  then show "parseLocation bucket_name s = Inr (b, p)"
    by (auto simp: parseLocation_def match_gs_def split: if_splits)
next
  fix p assume m: "match_https s = Some (bucket_name, p)"
  then have "startsWith s ''https://storage.googleapis.com/''"
    by (auto simp: match_https_def split: if_splits)
  with not_both_schemes have "\<not> startsWith s ''gs://''" by blast
  with m show "parseLocation bucket_name s = Inr (bucket_name, p)"
    by (auto simp: parseLocation_def match_https_def split: if_splits)
qed

theorem parseLocation_two_schemes_witness:
  "match_gs ''ftp://docs/a.pdf'' = None \<and> match_https ''ftp://docs/a.pdf'' = None \<and>
   parseLocation ''docs'' ''ftp://docs/a.pdf'' =
     Inl (Error None ''Unsupported PDF URL format for download: ftp://docs/a.pdf'') \<and>
   invalidFormatError ''ftp://docs/a.pdf''
     (Error None ''Unsupported PDF URL format for download: ftp://docs/a.pdf'') \<and>
   parseLocation ''docs'' ''gs://docs'' = Inl (Error None ''Invalid GCS URI format: gs://docs'') \<and>
   parseLocation ''docs'' ''gs://docs/a.pdf'' = Inr (''docs'', ''a.pdf'') \<and>
   parseLocation ''docs'' ''https://storage.googleapis.com/docs/a.pdf'' = Inr (''docs'', ''a.pdf'')"
  using parseLocation_two_schemes [of "''ftp://docs/a.pdf''" "''docs''"]
    parseLocation_two_schemes [of "''gs://docs/a.pdf''" "''docs''"]
    parseLocation_two_schemes [of "''https://storage.googleapis.com/docs/a.pdf''" "''docs''"]
  by (simp add: match_gs_def match_https_def match_bucket_path_def line_terminator_def
      parseLocation_def invalidFormatError_def)

lemma parseLocation_gs:
  "match_gs loc = Some (b, p) \<Longrightarrow> parseLocation bn loc = Inr (b, p)"
  by (auto simp: parseLocation_def match_gs_def split: if_splits)

lemma parseLocation_https:
  assumes "match_https loc = Some (b, p)"
  shows "parseLocation bn loc =
           (if b \<noteq> bn then Inl (Error None ''Invalid bucket in public URL.'') else Inr (b, p))"
proof -
  from assms have "startsWith loc ''https://storage.googleapis.com/''"
    by (auto simp: match_https_def split: if_splits)
  with not_both_schemes have "\<not> startsWith loc ''gs://''" by blast
  with assms show ?thesis
    by (auto simp: parseLocation_def match_https_def split: if_splits)
qed

text \<open>
  Claim C1, as amended.  When the bucket parsed from the location differs from
  \<open>BUCKET_NAME\<close>, the \<open>try\<close> block throws one of the two untrusted-bucket errors, the
  state is unchanged (no call reaches the storage backend), and \<open>downloadPdfFromGcs\<close>
  fails with the error its handler makes of it: a download failure, not the
  untrusted-bucket error itself.
\<close>

theorem download_untrusted_bucket:
  assumes "match_gs loc = Some (b, p) \<or> match_https loc = Some (b, p)"
    and "b \<noteq> BUCKET_NAME e"
  shows "\<exists>err. download_try e loc w = (w, Inl err) \<and>
               untrustedBucketError (BUCKET_NAME e) b err \<and>
               downloadPdfFromGcs e loc w = (w, Inl (download_catch loc err))"
  using assms(1)
proof
  assume "match_gs loc = Some (b, p)"
  then have "parseLocation (BUCKET_NAME e) loc = Inr (b, p)" by (rule parseLocation_gs)
  with assms(2) show ?thesis
    by (simp add: download_try_def downloadPdfFromGcs_def untrustedBucketError_def)
next
  assume "match_https loc = Some (b, p)"
  then have "parseLocation (BUCKET_NAME e) loc = Inl (Error None ''Invalid bucket in public URL.'')"
    using assms(2) by (simp add: parseLocation_https)
  then show ?thesis
    by (simp add: download_try_def downloadPdfFromGcs_def untrustedBucketError_def)
qed

theorem download_untrusted_bucket_witness:
  "match_https ''https://storage.googleapis.com/other/a.pdf'' = Some (''other'', ''a.pdf'') \<and>
   ''other'' \<noteq> BUCKET_NAME example_env \<and>
   downloadPdfFromGcs example_env ''https://storage.googleapis.com/other/a.pdf'' example_world =
     (example_world,
      Inl (Error None ''Failed to download PDF from GCS: https://storage.googleapis.com/other/a.pdf.''))"
  using download_untrusted_bucket [of "''https://storage.googleapis.com/other/a.pdf''" "''other''"
        "''a.pdf''" example_env example_world]
  by (simp add: match_https_def match_bucket_path_def line_terminator_def example_env_def
      download_try_def downloadPdfFromGcs_def download_catch_def parseLocation_def)

text \<open>
  The error that reaches the caller for a foreign bucket is the generic download
  failure, the same as for an unsupported scheme; for a bucket named \<open>Not Found\<close> it is
  the not-found error.
\<close>

theorem download_untrusted_bucket_counterexample:
  "match_gs ''gs://other/a.pdf'' = Some (''other'', ''a.pdf'') \<and>
   ''other'' \<noteq> BUCKET_NAME example_env \<and>
   downloadPdfFromGcs example_env ''gs://other/a.pdf'' example_world =
     (example_world, Inl (Error None ''Failed to download PDF from GCS: gs://other/a.pdf.'')) \<and>
   \<not> untrustedBucketError (BUCKET_NAME example_env) ''other''
       (Error None ''Failed to download PDF from GCS: gs://other/a.pdf.'') \<and>
   downloadPdfFromGcs example_env ''ftp://other/a.pdf'' example_world =
     (example_world, Inl (Error None ''Failed to download PDF from GCS: ftp://other/a.pdf.'')) \<and>
   downloadPdfFromGcs example_env ''gs://Not Found/a.pdf'' example_world =
     (example_world, Inl (Error None ''PDF not found at GCS location: gs://Not Found/a.pdf.''))"
  by (simp add: match_gs_def match_bucket_path_def line_terminator_def example_env_def
      download_try_def downloadPdfFromGcs_def download_catch_def parseLocation_def
      untrustedBucketError_def)

section \<open>What \<open>addSignatureToPage\<close> draws\<close>

lemma drawText_Inr:
  "drawText e pg t x y sz fnt = Inr pg' \<longleftrightarrow>
     drawText_fault e t = None \<and> pg' = pg @ [DrawText t x y sz fnt]"
  by (auto simp: drawText_def split: option.splits)

lemma drawText_encodable:
  "drawText_fault e t = None \<Longrightarrow> drawText e pg t x y sz fnt = Inr (pg @ [DrawText t x y sz fnt])"
  by (simp add: drawText_def)

lemma drawFieldLines_values:
  assumes "fv ''fullName'' = Some v1" "fv ''email'' = Some v2"
    "fv ''location'' = Some v3" "fv ''date'' = Some v4"
    and "fields_encodable e v1 v2 v3 v4"
  shows "drawFieldLines e fv fieldOrder pg y =
           Inr (pg @ field_line e ''fullName'' v1 y @ field_line e ''email'' v2 (y - 25) @
                field_line e ''location'' v3 (y - 50) @ field_line e ''date'' v4 (y - 75),
                y - 100)"
  using assms
  by (simp add: fieldOrder_def field_line_def spacing_def Let_def drawText_encodable
      fields_encodable_def)

lemma drawFieldLines_step:
  "drawFieldLines e fv (n # rest) pg y = Inr r \<longleftrightarrow>
     (\<exists>v. fv n = Some v \<and> drawText_fault e (labels (pdfConfig e) n) = None \<and>
          drawText_fault e v = None \<and>
          drawFieldLines e fv rest (pg @ field_line e n v y) (y - spacing) = Inr r)"
  by (auto simp: Let_def drawText_def field_line_def split: sum.splits option.splits)

lemma drawFieldLines_fieldOrder:
  "drawFieldLines e fv fieldOrder pg y = Inr (pg', y') \<longleftrightarrow>
   (\<exists>v1 v2 v3 v4. fv ''fullName'' = Some v1 \<and> fv ''email'' = Some v2 \<and>
      fv ''location'' = Some v3 \<and> fv ''date'' = Some v4 \<and>
      fields_encodable e v1 v2 v3 v4 \<and>
      pg' = pg @ field_line e ''fullName'' v1 y @ field_line e ''email'' v2 (y - 25) @
            field_line e ''location'' v3 (y - 50) @ field_line e ''date'' v4 (y - 75) \<and>
      y' = y - 100)"
  unfolding fieldOrder_def drawFieldLines_step
  by (auto simp: spacing_def fields_encodable_def)

lemma drawKeyboardSignature_Inr:
  "drawKeyboardSignature e flds pg y = Inr (pg', y') \<longleftrightarrow>
   (\<not> kb_truthy (keyboardSignature flds) \<and> pg' = pg \<and> y' = y) \<or>
   (\<exists>k fontBytes. keyboardSignature flds = Some k \<and> kb_text k \<noteq> [] \<and>
      fs_readFile e (fontPath e k) = Inr fontBytes \<and>
      drawText_fault e ''Unterschrift per Tastatur:'' = None \<and>
      drawText_fault e (kb_text k) = None \<and>
      pg' = pg @ typed_block k y \<and> y' = y - 50)"
  by (auto simp: drawKeyboardSignature_def typed_block_def spacing_def Let_def drawText_def
      split: option.splits sum.splits)

lemma drawKeyboardSignature_unreadable:
  "keyboardSignature flds = Some k \<Longrightarrow> kb_text k \<noteq> [] \<Longrightarrow>
     fs_readFile e (fontPath e k) = Inl err \<Longrightarrow> drawKeyboardSignature e flds pg y = Inl err"
  by (simp add: drawKeyboardSignature_def)

lemma drawSignaturePad_Inr:
  "drawSignaturePad e cfg sd pg y = Inr pg' \<longleftrightarrow>
   (\<not> truthy sd \<and> pg' = pg) \<or>
   (\<exists>s b64 img. sd = Some s \<and> s \<noteq> [] \<and>
      drawText_fault e ''Unterschrift Signaturfeld:'' = None \<and>
      index_opt (split_str CHR '','' s) 1 = Some b64 \<and>
      embedPng e (base64_decode e b64) = Inr img \<and> pg' = pg @ drawn_block cfg img y)"
  by (cases sd) (auto simp: drawSignaturePad_def drawn_block_def Let_def drawText_def
      split: option.splits sum.splits)

lemma drawSignaturePad_undecodable:
  "sd \<noteq> [] \<Longrightarrow> undecodable e sd \<Longrightarrow> \<exists>err. drawSignaturePad e cfg (Some sd) pg y = Inl err"
  by (auto simp: drawSignaturePad_def undecodable_def Let_def isl_def
      split: option.splits sum.splits)

lemma addSignatureToPage_Inr_iff:
  "addSignatureToPage e pgo cfg sd flds = Inr pg' \<longleftrightarrow>
     addSignatureToPage_try e pgo cfg sd flds = Inr pg'"
  by (simp add: addSignatureToPage_def split: sum.splits)

lemma addSignatureToPage_Inl:
  "addSignatureToPage_try e pgo cfg sd flds = Inl err \<Longrightarrow>
     addSignatureToPage e pgo cfg sd flds = Inl (Error None (msg_Unterschrift @ message err))"
  by (simp add: addSignatureToPage_def)

lemma block_lines_unfold:
  "DrawText (cfg_label_text cfg) 150 (cfg_textBlockY cfg) 12 Helvetica #
     field_line e ''fullName'' v1 (cfg_textBlockY cfg - spacing) @
     field_line e ''email'' v2 (cfg_textBlockY cfg - spacing - 25) @
     field_line e ''location'' v3 (cfg_textBlockY cfg - spacing - 50) @
     field_line e ''date'' v4 (cfg_textBlockY cfg - spacing - 75)
   = block_lines e cfg v1 v2 v3 v4"
  by (simp add: block_lines_def line_y_def spacing_def)

lemma line_y_5: "cfg_textBlockY cfg - spacing - 100 = line_y cfg 5"
  by (simp add: line_y_def spacing_def)

lemma addSignatureToPage_try_values:
  assumes "field_value flds ''fullName'' = Some v1" "field_value flds ''email'' = Some v2"
    "field_value flds ''location'' = Some v3" "field_value flds ''date'' = Some v4"
    and "fields_encodable e v1 v2 v3 v4" and "drawText_fault e (cfg_label_text cfg) = None"
  shows "addSignatureToPage_try e (Some pg) cfg sd flds =
           (case drawKeyboardSignature e flds (pg @ block_lines e cfg v1 v2 v3 v4) (line_y cfg 5) of
              Inl err \<Rightarrow> Inl err
            | Inr (pg2, y2) \<Rightarrow> drawSignaturePad e cfg sd pg2 y2)"
  unfolding addSignatureToPage_try_def Let_def
  by (simp add: drawText_encodable[OF assms(6)] drawFieldLines_values[OF assms(1-5)]
      block_lines_unfold line_y_5)

lemma addSignatureToPage_try_Inr:
  "addSignatureToPage_try e (Some pg) cfg sd flds = Inr pg' \<longleftrightarrow>
   (\<exists>v1 v2 v3 v4 pg2 y2.
      field_value flds ''fullName'' = Some v1 \<and> field_value flds ''email'' = Some v2 \<and>
      field_value flds ''location'' = Some v3 \<and> field_value flds ''date'' = Some v4 \<and>
      fields_encodable e v1 v2 v3 v4 \<and> drawText_fault e (cfg_label_text cfg) = None \<and>
      drawKeyboardSignature e flds (pg @ block_lines e cfg v1 v2 v3 v4) (line_y cfg 5) = Inr (pg2, y2) \<and>
      drawSignaturePad e cfg sd pg2 y2 = Inr pg')"
  (is "?L \<longleftrightarrow> ?R")
proof
  assume ?L
  then show ?R
    unfolding addSignatureToPage_try_def Let_def
    by (auto simp: drawText_Inr drawFieldLines_fieldOrder block_lines_unfold line_y_5
        split: sum.splits prod.splits)
next
  assume ?R
  then show ?L
    by (auto simp: addSignatureToPage_try_values)
qed

lemma addSignatureToPage_try_undecodable:
  assumes "sd \<noteq> []" and "undecodable e sd"
  shows "\<exists>err. addSignatureToPage_try e pgo cfg (Some sd) flds = Inl err"
proof (cases pgo)
  case None
  then show ?thesis by (simp add: addSignatureToPage_try_def)
next
  case (Some pg)
  show ?thesis
    unfolding addSignatureToPage_try_def Let_def Some
    using drawSignaturePad_undecodable[OF assms]
    by (auto split: sum.splits prod.splits)
qed

lemma addSignatureToDoc_undecodable:
  assumes "sd \<noteq> []" and "undecodable e sd"
  shows "\<exists>m. addSignatureToDoc e doc cfg (Some sd) flds = Inl (Error None (msg_Unterschrift @ m))"
proof -
  from addSignatureToPage_try_undecodable[OF assms]
  obtain err where "addSignatureToPage_try e (index_opt doc (cfg_page cfg)) cfg (Some sd) flds = Inl err"
    by blast
  from addSignatureToPage_Inl[OF this] show ?thesis
    by (auto simp: addSignatureToDoc_def)
qed

lemma addSignatureToPage_try_unreadable:
  assumes "keyboardSignature flds = Some k" and "kb_text k \<noteq> []"
    and "fs_readFile e (fontPath e k) = Inl err"
  shows "\<exists>err'. addSignatureToPage_try e pgo cfg sd flds = Inl err'"
proof (cases pgo)
  case None
  then show ?thesis by (simp add: addSignatureToPage_try_def)
next
  case (Some pg)
  show ?thesis
    unfolding addSignatureToPage_try_def Let_def Some
    using drawKeyboardSignature_unreadable[OF assms]
    by (auto split: sum.splits prod.splits)
qed

lemma addSignatureToDoc_unreadable:
  assumes "keyboardSignature flds = Some k" and "kb_text k \<noteq> []"
    and "fs_readFile e (fontPath e k) = Inl err"
  shows "\<exists>m. addSignatureToDoc e doc cfg sd flds = Inl (Error None (msg_Unterschrift @ m))"
proof -
  from addSignatureToPage_try_unreadable[OF assms]
  obtain err' where "addSignatureToPage_try e (index_opt doc (cfg_page cfg)) cfg sd flds = Inl err'"
    by blast
  from addSignatureToPage_Inl[OF this] show ?thesis
    by (auto simp: addSignatureToDoc_def)
qed

text \<open>
  When the page exists and every text of the block can be encoded, the error of an
  unreadable font file is the one that is rethrown.
\<close>

lemma addSignatureToPage_unreadable_message:
  assumes "keyboardSignature flds = Some k" and "kb_text k \<noteq> []"
    and "fs_readFile e (fontPath e k) = Inl err"
    and "field_value flds ''fullName'' = Some v1" and "field_value flds ''email'' = Some v2"
    and "field_value flds ''location'' = Some v3" and "field_value flds ''date'' = Some v4"
    and "fields_encodable e v1 v2 v3 v4" and "drawText_fault e (cfg_label_text cfg) = None"
  shows "addSignatureToPage e (Some pg) cfg sd flds =
           Inl (Error None (msg_Unterschrift @ message err))"
  by (simp add: addSignatureToPage_def addSignatureToPage_try_values [OF assms(4-9)]
      drawKeyboardSignature_unreadable [OF assms(1-3)])

text \<open>
  No call site passes both a typed and a drawn signature: \<open>/api/sign\<close> replaces the
  drawn one by \<open>null\<close>, and \<open>/api/pdf-config\<close> passes no \<open>keyboardSignature\<close>.
\<close>

lemma call_one_payload:
  "\<not> (kb_truthy (keyboardSignature (call_fields e req c)) \<and> truthy (call_signatureData req c))"
  by (cases c) (auto simp: contractFields_def contractSignatureData_def withdrawalFields_def
      withdrawalSignatureData_def textFields_def)

lemma call_keyboard_fields:
  "call_keyboard req c = Some k \<Longrightarrow> kb_text k \<noteq> [] \<Longrightarrow>
     keyboardSignature (call_fields e req c) = Some k \<and> call_signatureData req c = None"
  by (cases c) (auto simp: contractFields_def contractSignatureData_def withdrawalFields_def
      withdrawalSignatureData_def)

lemma example_contract_drawn:
  "addSignatureToPage example_env (Some []) (call_config example_env SignContract)
     (call_signatureData example_request SignContract)
     (call_fields example_env example_request SignContract) =
   Inr (block_lines example_env (contractSignatureCfg example_config)
          ''Jane Doe'' ''j@x.com'' ''Berlin'' ''3.11.2026'' @
        drawn_block (contractSignatureCfg example_config) (PngImage ''PNG'') 275)"
  by (simp add: example_defs compose_defs layout_defs Let_def)

lemma example_contract_typed:
  "addSignatureToPage example_env (Some []) (contractSignatureCfg example_config)
     (call_signatureData (typed_request font) SignContract)
     (call_fields example_env (typed_request font) SignContract) =
   Inr (block_lines example_env (contractSignatureCfg example_config)
          ''Jane Doe'' ''j@x.com'' ''Berlin'' ''3.11.2026'' @
        [DrawText ''Unterschrift per Tastatur:'' 150 275 12 Helvetica,
         DrawText ''Jane Doe'' 150 250 16 Helvetica])"
  by (simp add: example_defs compose_defs layout_defs Let_def)

text \<open>
  Claim C8.  Whenever one of the four calls of \<open>addSignatureToPage\<close> made by the handlers
  succeeds, the page has gained exactly the title line at \<open>textBlockY\<close>, then the four
  field lines \<open>fullName\<close>, \<open>email\<close>, \<open>location\<close>, \<open>date\<close> in this order, each 25 units
  below the line before it, and then nothing, or one typed signature, or one drawn
  signature, starting on the sixth line.
\<close>

theorem block_layout:
  assumes "addSignatureToPage e (Some pg) (call_config e c) (call_signatureData req c)
             (call_fields e req c) = Inr pg'"
  shows "\<exists>v1 v2 v3 v4 sig.
           field_value (call_fields e req c) ''fullName'' = Some v1 \<and>
           field_value (call_fields e req c) ''email'' = Some v2 \<and>
           field_value (call_fields e req c) ''location'' = Some v3 \<and>
           field_value (call_fields e req c) ''date'' = Some v4 \<and>
           pg' = pg @ block_lines e (call_config e c) v1 v2 v3 v4 @ sig \<and>
           (sig = [] \<or>
            (\<exists>k. sig = typed_block k (line_y (call_config e c) 5)) \<or>
            (\<exists>img. sig = drawn_block (call_config e c) img (line_y (call_config e c) 5)))"
proof -
  let ?cfg = "call_config e c" and ?sd = "call_signatureData req c" and ?f = "call_fields e req c"
  from assms obtain v1 v2 v3 v4 pg2 y2 where
    v: "field_value ?f ''fullName'' = Some v1" "field_value ?f ''email'' = Some v2"
       "field_value ?f ''location'' = Some v3" "field_value ?f ''date'' = Some v4"
    and kb: "drawKeyboardSignature e ?f (pg @ block_lines e ?cfg v1 v2 v3 v4) (line_y ?cfg 5) = Inr (pg2, y2)"
    and pad: "drawSignaturePad e ?cfg ?sd pg2 y2 = Inr pg'"
    unfolding addSignatureToPage_Inr_iff addSignatureToPage_try_Inr by blast
  show ?thesis
  proof (cases "kb_truthy (keyboardSignature ?f)")
    case True
    with call_one_payload[of e req c] have "\<not> truthy ?sd" by blast
    with pad have "pg' = pg2" by (auto simp: drawSignaturePad_Inr)
    moreover from kb True obtain k where "pg2 = (pg @ block_lines e ?cfg v1 v2 v3 v4) @ typed_block k (line_y ?cfg 5)"
      by (auto simp: drawKeyboardSignature_Inr)
    ultimately show ?thesis using v by auto
  next
    case False
    with kb have "pg2 = pg @ block_lines e ?cfg v1 v2 v3 v4" and "y2 = line_y ?cfg 5"
      by (auto simp: drawKeyboardSignature_Inr)
    with pad have "pg' = pg @ block_lines e ?cfg v1 v2 v3 v4 \<or>
       (\<exists>img. pg' = (pg @ block_lines e ?cfg v1 v2 v3 v4) @ drawn_block ?cfg img (line_y ?cfg 5))"
      by (auto simp: drawSignaturePad_Inr)
    then show ?thesis using v by auto
  qed
qed

theorem block_layout_witness:
  "addSignatureToPage example_env (Some []) (call_config example_env SignContract)
     (call_signatureData example_request SignContract)
     (call_fields example_env example_request SignContract) =
   Inr (block_lines example_env (contractSignatureCfg example_config)
          ''Jane Doe'' ''j@x.com'' ''Berlin'' ''3.11.2026'' @
        drawn_block (contractSignatureCfg example_config) (PngImage ''PNG'') 275) \<and>
   line_y (call_config example_env SignContract) 5 = 275"
  using block_layout [OF example_contract_drawn] example_contract_drawn
  by (simp add: line_y_def example_defs)



text \<open>
  Claim C9, as amended.  For a typed signature with non-empty text, a successful
  composition draws the label line \<open>Unterschrift per Tastatur:\<close> on the sixth line of the
  block and the text one line below it at size 16, which is four thirds of the body size
  12, always in Helvetica: the font named by the payload selects the file that is read,
  not the font that is drawn.
\<close>

theorem typed_signature_rendering:
  assumes "keyboardSignature flds = Some k" and "kb_text k \<noteq> []"
    and "addSignatureToPage e (Some pg) cfg sd flds = Inr pg'"
  shows "\<exists>v1 v2 v3 v4 rest.
           pg' = pg @ block_lines e cfg v1 v2 v3 v4 @
                 [DrawText ''Unterschrift per Tastatur:'' 150 (line_y cfg 5) 12 Helvetica,
                  DrawText (kb_text k) 150 (line_y cfg 6) 16 Helvetica] @ rest \<and>
           (rest = [] \<or> (\<exists>img. rest = drawn_block cfg img (line_y cfg 7)))"
proof -
  from assms(3) obtain v1 v2 v3 v4 pg2 y2 where
    kb: "drawKeyboardSignature e flds (pg @ block_lines e cfg v1 v2 v3 v4) (line_y cfg 5) = Inr (pg2, y2)"
    and pad: "drawSignaturePad e cfg sd pg2 y2 = Inr pg'"
    unfolding addSignatureToPage_Inr_iff addSignatureToPage_try_Inr by blast
  have y6: "line_y cfg 5 - 25 = line_y cfg 6" and y7: "line_y cfg 5 - 50 = line_y cfg 7"
    by (simp_all add: line_y_def)
  from kb assms(1,2) have pg2: "pg2 = (pg @ block_lines e cfg v1 v2 v3 v4) @
      [DrawText ''Unterschrift per Tastatur:'' 150 (line_y cfg 5) 12 Helvetica,
       DrawText (kb_text k) 150 (line_y cfg 6) 16 Helvetica]" and y2: "y2 = line_y cfg 7"
    by (auto simp: drawKeyboardSignature_Inr typed_block_def y6 y7)
  let ?typed = "[DrawText ''Unterschrift per Tastatur:'' 150 (line_y cfg 5) 12 Helvetica,
                 DrawText (kb_text k) 150 (line_y cfg 6) 16 Helvetica]"
  from pad have "pg' = pg2 \<or> (\<exists>img. pg' = pg2 @ drawn_block cfg img y2)"
    by (auto simp: drawSignaturePad_Inr)
  then show ?thesis
  proof
    assume "pg' = pg2"
    with pg2 have "pg' = pg @ block_lines e cfg v1 v2 v3 v4 @ ?typed @ []" by simp
    then show ?thesis by blast
  next
    assume "\<exists>img. pg' = pg2 @ drawn_block cfg img y2"
    then obtain img where "pg' = pg2 @ drawn_block cfg img y2" ..
    with pg2 y2 have "pg' = pg @ block_lines e cfg v1 v2 v3 v4 @ ?typed @
                        drawn_block cfg img (line_y cfg 7)" by simp
    then show ?thesis by blast
  qed
qed

theorem typed_signature_rendering_witness:
  "keyboardSignature (call_fields example_env (typed_request ''DancingScript-Regular'') SignContract) =
     Some (KeyboardSignature ''Jane Doe'' ''DancingScript-Regular'') \<and>
   addSignatureToPage example_env (Some []) (contractSignatureCfg example_config)
     (call_signatureData (typed_request ''DancingScript-Regular'') SignContract)
     (call_fields example_env (typed_request ''DancingScript-Regular'') SignContract) =
   Inr (block_lines example_env (contractSignatureCfg example_config)
          ''Jane Doe'' ''j@x.com'' ''Berlin'' ''3.11.2026'' @
        [DrawText ''Unterschrift per Tastatur:'' 150 275 12 Helvetica,
         DrawText ''Jane Doe'' 150 250 16 Helvetica])"
proof -
  let ?k = "KeyboardSignature ''Jane Doe'' ''DancingScript-Regular''"
  have k: "keyboardSignature (call_fields example_env (typed_request ''DancingScript-Regular'') SignContract) = Some ?k"
    by (simp add: example_defs contractFields_def)
  have t: "kb_text ?k \<noteq> []" by simp
  from typed_signature_rendering [OF k t example_contract_typed [of "''DancingScript-Regular''"]]
    k example_contract_typed [of "''DancingScript-Regular''"]
  show ?thesis by simp
qed

text \<open>
  With the decorative font chosen and its file readable, the text is drawn in Helvetica
  and not in a font embedded from that file, and the page is the same as with the other
  font chosen.
\<close>

theorem font_choice_counterexample:
  "fs_readFile example_env
     (fontPath example_env (KeyboardSignature ''Jane Doe'' ''DancingScript-Regular'')) = Inr ''dancing'' \<and>
   addSignatureToPage example_env (Some []) (contractSignatureCfg example_config)
     (contractSignatureData (typed_request ''DancingScript-Regular''))
     (contractFields example_env (typed_request ''DancingScript-Regular'')) =
   Inr (block_lines example_env (contractSignatureCfg example_config)
          ''Jane Doe'' ''j@x.com'' ''Berlin'' ''3.11.2026'' @
        [DrawText ''Unterschrift per Tastatur:'' 150 275 12 Helvetica,
         DrawText ''Jane Doe'' 150 250 16 Helvetica]) \<and>
   Helvetica \<noteq> CustomFont ''dancing'' \<and>
   addSignatureToPage example_env (Some []) (contractSignatureCfg example_config)
     (contractSignatureData (typed_request ''BarlowSemiCondensed-Regular''))
     (contractFields example_env (typed_request ''BarlowSemiCondensed-Regular'')) =
   addSignatureToPage example_env (Some []) (contractSignatureCfg example_config)
     (contractSignatureData (typed_request ''DancingScript-Regular''))
     (contractFields example_env (typed_request ''DancingScript-Regular''))"
  using example_contract_typed [of "''DancingScript-Regular''"]
    example_contract_typed [of "''BarlowSemiCondensed-Regular''"]
  by (simp add: example_env_def fontPath_def)

section \<open>The signing handlers\<close>

lemma downloadPdfFromGcs_world:
  "downloadPdfFromGcs e url w = (w1, r) \<Longrightarrow>
     w1 = w \<or> (\<exists>p. w1 = w\<lparr>gcs_calls := gcs_calls w @ [Download (BUCKET_NAME e) p]\<rparr>)"
  by (auto simp: downloadPdfFromGcs_def download_try_def split: sum.splits prod.splits if_splits)

lemma downloadPdfFromGcs_Inr_world:
  "downloadPdfFromGcs e url w = (w1, Inr b) \<Longrightarrow>
     \<exists>p. w1 = w\<lparr>gcs_calls := gcs_calls w @ [Download (BUCKET_NAME e) p]\<rparr>"
  by (auto simp: downloadPdfFromGcs_def download_try_def split: sum.splits prod.splits if_splits)

lemma sign_prepare_Inr:
  assumes "sign_prepare e req w = Inr (pid, pdfData, pdfDoc, w1)"
  shows "pdfId req = Some pid \<and> pdfStore w pid = Some pdfData \<and>
         (\<exists>p. w1 = w\<lparr>gcs_calls := gcs_calls w @ [Download (BUCKET_NAME e) p]\<rparr>)"
  using assms
  by (auto simp: sign_prepare_def split: if_splits option.splits sum.splits prod.splits
      dest: downloadPdfFromGcs_Inr_world)

lemma sign_prepare_Inl:
  assumes "sign_prepare e req w = Inl (w1, r)"
  shows "pdfStore w1 = pdfStore w \<and> storeFile w1 = storeFile w \<and>
         webhook_calls w1 = webhook_calls w \<and> (\<forall>u. r \<noteq> Response 200 (PdfUrlJson u))"
  using assms
  by (auto simp: sign_prepare_def split: if_splits option.splits sum.splits prod.splits
      dest!: downloadPdfFromGcs_world)

lemma storePdfInBucket_frame:
  assumes "storePdfInBucket e b d w = (w1, r)"
  shows "pdfStore w1 = pdfStore w \<and> storeFile w1 = storeFile w \<and>
         webhook_calls w1 = webhook_calls w \<and>
         (\<forall>u. r = Inr u \<longrightarrow>
            u = (if MAKE_PUBLIC e then publicUrl (BUCKET_NAME e) d else gcsUri (BUCKET_NAME e) d))"
  using assms
  by (auto simp: storePdfInBucket_def Let_def split: option.splits if_splits)

lemma sign_document_cases:
  assumes "sign_document e req pid pdfData pdfDoc w = (w', r)"
  shows "(w' = w \<and> (\<exists>m. r = Response 500 (ErrorJson m))) \<or>
         (\<exists>b d err. storePdfInBucket e b d w = (w', Inl err) \<and> r = Response 500 (ErrorJson (message err))) \<or>
         (\<exists>b w1 u. storePdfInBucket e b (''signed/signed_'' @ pid @ ''.pdf'') w = (w1, Inr u) \<and>
            w' = w1\<lparr>webhook_calls := webhook_calls w1 @
              [SignedHook u (fullName req) (email req) (location req) (vorname pdfData)
                 (card_id pdfData) (pd_email pdfData) (withdrawalAccepted req) (isoTimestamp e)]\<rparr> \<and>
            r = Response 200 (PdfUrlJson u))"
  using assms
  unfolding sign_document_def Let_def
  by (fastforce split: sum.splits prod.splits)

lemma sign_document_frame:
  assumes "sign_document e req pid pdfData pdfDoc w = (w', r)"
  shows "pdfStore w' = pdfStore w \<and> storeFile w' = storeFile w \<and>
         (\<forall>u. r = Response 200 (PdfUrlJson u) \<longrightarrow>
            u = (if MAKE_PUBLIC e then publicUrl (BUCKET_NAME e) (''signed/signed_'' @ pid @ ''.pdf'')
                 else gcsUri (BUCKET_NAME e) (''signed/signed_'' @ pid @ ''.pdf'')) \<and>
            webhook_calls w' = webhook_calls w @
              [SignedHook u (fullName req) (email req) (location req) (vorname pdfData)
                 (card_id pdfData) (pd_email pdfData) (withdrawalAccepted req) (isoTimestamp e)])"
  using sign_document_cases[OF assms]
proof (elim disjE exE conjE)
  fix m assume "w' = w" "r = Response 500 (ErrorJson m)"
  then show ?thesis by simp
next
  fix b d err
  assume "storePdfInBucket e b d w = (w', Inl err)" "r = Response 500 (ErrorJson (message err))"
  then show ?thesis using storePdfInBucket_frame by fastforce
next
  fix b w1 u
  assume s: "storePdfInBucket e b (''signed/signed_'' @ pid @ ''.pdf'') w = (w1, Inr u)"
    and w': "w' = w1\<lparr>webhook_calls := webhook_calls w1 @
              [SignedHook u (fullName req) (email req) (location req) (vorname pdfData)
                 (card_id pdfData) (pd_email pdfData) (withdrawalAccepted req) (isoTimestamp e)]\<rparr>"
    and r: "r = Response 200 (PdfUrlJson u)"
  from storePdfInBucket_frame[OF s] w' r show ?thesis by simp
qed

lemma example_sign_ok:
  "api_sign example_env example_request example_world =
     (example_world
        \<lparr>gcs_calls := [Download ''docs'' ''uploads/uploaded_id1.pdf'',
                       Save ''docs'' ''signed/signed_id1.pdf'' ''%PDF-signed''],
         webhook_calls := [SignedHook ''gs://docs/signed/signed_id1.pdf'' (Some ''Jane Doe'')
                             (Some ''j@x.com'') (Some ''Berlin'') (Some ''Jane'') None None False
                             ''2026-11-03T00:00:00.000Z'']\<rparr>,
      Response 200 (PdfUrlJson ''gs://docs/signed/signed_id1.pdf''))"
  by (simp add: handler_defs compose_defs example_defs Let_def)

lemma example_prepare:
  "sign_prepare example_env broken_drawn_request example_world =
     Inr (''id1'', example_pdf_data, [[], []],
          example_world\<lparr>gcs_calls := [Download ''docs'' ''uploads/uploaded_id1.pdf'']\<rparr>)"
  by (simp add: handler_defs example_defs)

text \<open>
  The store is written by \<open>/api/pdf-upload\<close>: a successful upload adds the record of the
  new identifier and rewrites \<open>pdfStore.json\<close> from the whole map.
\<close>

lemma upload_document_stores:
  assumes "upload_document e req pdfBytes w = (w', Response 200 (UploadJson url su))"
  shows "\<exists>d. pdfStore w' (uuidv4 e) = Some d \<and> pdfUrl d = Some url \<and>
             (fs_writeFile_ok e \<longrightarrow> storeFile w' = Some (pdfStore w'))"
  using assms
  unfolding upload_document_def Let_def savePdfStore_def
  by (auto split: prod.splits sum.splits if_splits)

lemma api_pdf_upload_stores:
  assumes "api_pdf_upload e req w = (w', Response 200 (UploadJson url su))"
  shows "\<exists>d. pdfStore w' (uuidv4 e) = Some d \<and> pdfUrl d = Some url \<and>
             (fs_writeFile_ok e \<longrightarrow> storeFile w' = Some (pdfStore w'))"
  using assms upload_document_stores
  unfolding api_pdf_upload_def
  by (auto split: option.splits sum.splits if_splits)

text \<open>
  Claim C10.  \<open>/api/sign\<close> leaves \<open>pdfStore\<close> and \<open>pdfStore.json\<close> as they were, whatever
  the request.  When it answers with a signed location, that location is the one
  \<open>storePdfInBucket\<close> built for \<open>signed/signed_<pdfId>.pdf\<close>, the record of \<open>pdfId\<close> is the
  one found before, and the webhook was called once more, with that location.
\<close>

theorem api_sign_store_unchanged:
  "pdfStore (fst (api_sign e req w)) = pdfStore w \<and>
   storeFile (fst (api_sign e req w)) = storeFile w \<and>
   (\<forall>u. snd (api_sign e req w) = Response 200 (PdfUrlJson u) \<longrightarrow>
      (\<exists>pid pdfData.
         pdfId req = Some pid \<and> pdfStore w pid = Some pdfData \<and>
         pdfStore (fst (api_sign e req w)) pid = Some pdfData \<and>
         u = (if MAKE_PUBLIC e then publicUrl (BUCKET_NAME e) (''signed/signed_'' @ pid @ ''.pdf'')
              else gcsUri (BUCKET_NAME e) (''signed/signed_'' @ pid @ ''.pdf'')) \<and>
         webhook_calls (fst (api_sign e req w)) = webhook_calls w @
           [SignedHook u (fullName req) (email req) (location req) (vorname pdfData)
              (card_id pdfData) (pd_email pdfData) (withdrawalAccepted req) (isoTimestamp e)]))"
proof (cases "sign_prepare e req w")
  case (Inl a)
  obtain w1 r where a: "a = (w1, r)" by (cases a)
  with Inl have "api_sign e req w = (w1, r)" by (simp add: api_sign_def)
  with sign_prepare_Inl[of e req w w1 r] Inl a show ?thesis by simp
next
  case (Inr b)
  obtain pid pdfData pdfDoc w1 where b: "b = (pid, pdfData, pdfDoc, w1)" by (cases b)
  with Inr have p: "sign_prepare e req w = Inr (pid, pdfData, pdfDoc, w1)" by simp
  obtain w' r where sd: "sign_document e req pid pdfData pdfDoc w1 = (w', r)"
    by (cases "sign_document e req pid pdfData pdfDoc w1")
  with p have api: "api_sign e req w = (w', r)" by (simp add: api_sign_def)
  from sign_prepare_Inr[OF p] obtain q where
    pre: "pdfId req = Some pid" "pdfStore w pid = Some pdfData"
      "w1 = w\<lparr>gcs_calls := gcs_calls w @ [Download (BUCKET_NAME e) q]\<rparr>" by blast
  from sign_document_frame[OF sd] pre api show ?thesis by simp
qed

theorem api_sign_store_unchanged_witness:
  "snd (api_sign example_env example_request example_world) =
     Response 200 (PdfUrlJson ''gs://docs/signed/signed_id1.pdf'') \<and>
   pdfStore (fst (api_sign example_env example_request example_world)) = pdfStore example_world \<and>
   storeFile (fst (api_sign example_env example_request example_world)) = None \<and>
   map_option pdfUrl (pdfStore (fst (api_sign example_env example_request example_world)) ''id1'') =
     Some (Some ''gs://docs/uploads/uploaded_id1.pdf'') \<and>
   map hook_pdfUrl (webhook_calls (fst (api_sign example_env example_request example_world))) =
     [''gs://docs/signed/signed_id1.pdf'']"
  using api_sign_store_unchanged [of example_env example_request example_world] example_sign_ok
  by (simp add: example_world_def example_pdf_data_def)

text \<open>
  \<open>/api/sign\<close> answers status 400 only when \<open>fullName\<close>, \<open>location\<close> or \<open>email\<close>
  is missing: it has no check of the withdrawal signature, which \<open>/api/pdf-config\<close> has
  at line 350.
\<close>

lemma api_sign_status_400:
  "status (snd (api_sign e req w)) = 400 \<longleftrightarrow>
     \<not> truthy (fullName req) \<or> \<not> truthy (location req) \<or> \<not> truthy (email req)"
  unfolding api_sign_def sign_prepare_def sign_document_def Let_def
  by (auto split: sum.splits prod.splits option.splits if_splits)

text \<open>
  Claim C7, at a request with valid fields and a contract signature that accepts the
  withdrawal waiver and carries no withdrawal signature of either kind: \<open>/api/sign\<close>
  composes both blocks (the withdrawal block without any signature), uploads the
  document and answers 200, where \<open>/api/pdf-config\<close> answers 400 before composing
  anything.
\<close>

theorem api_sign_accepts_unsigned_withdrawal:
  "truthy (fullName unsigned_withdrawal_request) \<and> truthy (email unsigned_withdrawal_request) \<and>
   truthy (location unsigned_withdrawal_request) \<and> truthy (signature unsigned_withdrawal_request) \<and>
   withdrawalAccepted unsigned_withdrawal_request \<and>
   withdrawalSignature unsigned_withdrawal_request = None \<and>
   withdrawalKeyboardSignature unsigned_withdrawal_request = None \<and>
   api_sign example_env unsigned_withdrawal_request example_world =
     (example_world
        \<lparr>gcs_calls := [Download ''docs'' ''uploads/uploaded_id1.pdf'',
                       Save ''docs'' ''signed/signed_id1.pdf'' ''%PDF-signed''],
         webhook_calls := [SignedHook ''gs://docs/signed/signed_id1.pdf'' (Some ''Jane Doe'')
                             (Some ''j@x.com'') (Some ''Berlin'') (Some ''Jane'') None None True
                             ''2026-11-03T00:00:00.000Z'']\<rparr>,
      Response 200 (PdfUrlJson ''gs://docs/signed/signed_id1.pdf'')) \<and>
   addSignatureToPage example_env (Some []) (withdrawalSignatureCfg example_config)
     (withdrawalSignatureData unsigned_withdrawal_request)
     (withdrawalFields example_env unsigned_withdrawal_request) =
     Inr (block_lines example_env (withdrawalSignatureCfg example_config)
            ''Jane Doe'' ''j@x.com'' ''Berlin'' ''3.11.2026'') \<and>
   api_pdf_config example_env unsigned_withdrawal_request example_world =
     (example_world, Response 400 (ErrorJson msg_Widerruf_fehlt))"
  by (simp add: handler_defs compose_defs layout_defs example_defs Let_def)

theorem api_sign_accepts_unsigned_withdrawal_witness:
  "status (snd (api_sign example_env unsigned_withdrawal_request example_world)) = 200 \<and>
   status (snd (api_pdf_config example_env unsigned_withdrawal_request example_world)) = 400"
  using api_sign_accepts_unsigned_withdrawal by simp

text \<open>
  Claim C4, as amended.  When a request of \<open>/api/sign\<close> reaches composition and the
  signature data passed for a block is a drawn signature that cannot be decoded (the
  block has no typed signature with non-empty text; for the withdrawal block the waiver
  is accepted and the contract block was composed), the handler answers status 500 with
  the message of that block around the error of the composition, and the only call to
  the storage backend is the download of the original: nothing is uploaded.
\<close>

theorem undecodable_drawn_signature_aborts:
  assumes "sign_prepare e req w = Inr (pid, pdfData, pdfDoc, w1)"
    and "call_signatureData req c = Some sd" and "sd \<noteq> []" and "undecodable e sd"
    and "c = SignContract \<or>
         (c = SignWithdrawal \<and> withdrawalAccepted req \<and>
          \<not> isl (addSignatureToDoc e pdfDoc (call_config e SignContract)
                   (call_signatureData req SignContract) (call_fields e req SignContract)))"
  shows "\<exists>m p. api_sign e req w =
           (w\<lparr>gcs_calls := gcs_calls w @ [Download (BUCKET_NAME e) p]\<rparr>,
            Response 500 (ErrorJson (block_message c @ msg_Unterschrift @ m)))"
proof -
  from sign_prepare_Inr[OF assms(1)] obtain p where
    w1: "w1 = w\<lparr>gcs_calls := gcs_calls w @ [Download (BUCKET_NAME e) p]\<rparr>" by blast
  have api: "api_sign e req w = sign_document e req pid pdfData pdfDoc w1"
    using assms(1) by (simp add: api_sign_def)
  from assms(5) show ?thesis
  proof
    assume c: "c = SignContract"
    with assms(2) have sd: "contractSignatureData req = Some sd" by simp
    from addSignatureToDoc_undecodable[OF assms(3,4)] obtain m where
      "addSignatureToDoc e pdfDoc (contractSignatureCfg (pdfConfig e)) (Some sd)
         (contractFields e req) = Inl (Error None (msg_Unterschrift @ m))" by blast
    then have "sign_document e req pid pdfData pdfDoc w1 =
        (w1, Response 500 (ErrorJson (msg_Vertragsunterschrift @ msg_Unterschrift @ m)))"
      by (simp add: sign_document_def sd)
    with api w1 c show ?thesis by auto
  next
    assume a: "c = SignWithdrawal \<and> withdrawalAccepted req \<and>
          \<not> isl (addSignatureToDoc e pdfDoc (call_config e SignContract)
                   (call_signatureData req SignContract) (call_fields e req SignContract))"
    then obtain doc1 where d1: "addSignatureToDoc e pdfDoc (contractSignatureCfg (pdfConfig e))
        (contractSignatureData req) (contractFields e req) = Inr doc1"
      by (cases "addSignatureToDoc e pdfDoc (contractSignatureCfg (pdfConfig e))
        (contractSignatureData req) (contractFields e req)") auto
    from a assms(2) have sd: "withdrawalSignatureData req = Some sd" by simp
    from addSignatureToDoc_undecodable[OF assms(3,4)] obtain m where
      "addSignatureToDoc e doc1 (withdrawalSignatureCfg (pdfConfig e)) (Some sd)
         (withdrawalFields e req) = Inl (Error None (msg_Unterschrift @ m))" by blast
    then have "sign_document e req pid pdfData pdfDoc w1 =
        (w1, Response 500 (ErrorJson (msg_Widerrufsunterschrift @ msg_Unterschrift @ m)))"
      using a by (simp add: sign_document_def sd d1)
    with api w1 a show ?thesis by auto
  qed
qed

theorem undecodable_drawn_signature_aborts_witness:
  "call_signatureData broken_drawn_request SignContract = Some broken_png \<and>
   undecodable example_env broken_png \<and>
   api_sign example_env broken_drawn_request example_world =
     (example_world\<lparr>gcs_calls := [Download ''docs'' ''uploads/uploaded_id1.pdf'']\<rparr>,
      Response 500 (ErrorJson (msg_Vertragsunterschrift @ msg_Unterschrift @
                                ''The input is not a PNG file!'')))"
proof -
  have s: "call_signatureData broken_drawn_request SignContract = Some broken_png"
    by (simp add: example_defs contractSignatureData_def)
  have n: "broken_png \<noteq> []" by (simp add: broken_png_def)
  have u: "undecodable example_env broken_png"
    by (simp add: undecodable_def broken_png_def example_env_def)
  have c: "SignContract = SignContract \<or>
         (SignContract = SignWithdrawal \<and> withdrawalAccepted broken_drawn_request \<and>
          \<not> isl (addSignatureToDoc example_env [[], []] (call_config example_env SignContract)
                   (call_signatureData broken_drawn_request SignContract)
                   (call_fields example_env broken_drawn_request SignContract)))" by simp
  have "api_sign example_env broken_drawn_request example_world =
     (example_world\<lparr>gcs_calls := [Download ''docs'' ''uploads/uploaded_id1.pdf'']\<rparr>,
      Response 500 (ErrorJson (msg_Vertragsunterschrift @ msg_Unterschrift @
                                ''The input is not a PNG file!'')))"
    by (simp add: handler_defs compose_defs example_defs Let_def)
  with undecodable_drawn_signature_aborts [OF example_prepare s n u c] s u
  show ?thesis by simp
qed

text \<open>
  A request whose contract block carries a typed signature beside a drawn signature that
  cannot be decoded is signed and uploaded: the drawn payload is never decoded.
\<close>

theorem undecodable_drawn_signature_counterexample:
  "signature typed_and_broken_drawn_request = Some broken_png \<and>
   undecodable example_env broken_png \<and>
   api_sign example_env typed_and_broken_drawn_request example_world =
     (example_world
        \<lparr>gcs_calls := [Download ''docs'' ''uploads/uploaded_id1.pdf'',
                       Save ''docs'' ''signed/signed_id1.pdf'' ''%PDF-signed''],
         webhook_calls := [SignedHook ''gs://docs/signed/signed_id1.pdf'' (Some ''Jane Doe'')
                             (Some ''j@x.com'') (Some ''Berlin'') (Some ''Jane'') None None False
                             ''2026-11-03T00:00:00.000Z'']\<rparr>,
      Response 200 (PdfUrlJson ''gs://docs/signed/signed_id1.pdf''))"
  by (simp add: handler_defs compose_defs example_defs undecodable_def Let_def)

section \<open>A missing font file\<close>

text \<open>
  When a request of \<open>/api/sign\<close> reaches composition and the font file selected by the
  typed signature of a block cannot be read, the handler answers status 500 with the
  message of that block and uploads nothing.
\<close>

lemma api_sign_unreadable_font:
  assumes "sign_prepare e req w = Inr (pid, pdfData, pdfDoc, w1)"
    and "call_keyboard req c = Some k" and "kb_text k \<noteq> []"
    and "fs_readFile e (fontPath e k) = Inl err"
    and "c = SignContract \<or>
         (c = SignWithdrawal \<and> withdrawalAccepted req \<and>
          \<not> isl (addSignatureToDoc e pdfDoc (call_config e SignContract)
                   (call_signatureData req SignContract) (call_fields e req SignContract)))"
  shows "\<exists>m p. api_sign e req w =
           (w\<lparr>gcs_calls := gcs_calls w @ [Download (BUCKET_NAME e) p]\<rparr>,
            Response 500 (ErrorJson (block_message c @ msg_Unterschrift @ m)))"
proof -
  from sign_prepare_Inr[OF assms(1)] obtain p where
    w1: "w1 = w\<lparr>gcs_calls := gcs_calls w @ [Download (BUCKET_NAME e) p]\<rparr>" by blast
  have api: "api_sign e req w = sign_document e req pid pdfData pdfDoc w1"
    using assms(1) by (simp add: api_sign_def)
  from call_keyboard_fields[OF assms(2,3)]
  have f: "keyboardSignature (call_fields e req c) = Some k" by simp
  from assms(5) show ?thesis
  proof
    assume c: "c = SignContract"
    with f have "keyboardSignature (contractFields e req) = Some k" by simp
    from addSignatureToDoc_unreadable[OF this assms(3,4)] obtain m where
      "addSignatureToDoc e pdfDoc (contractSignatureCfg (pdfConfig e)) (contractSignatureData req)
         (contractFields e req) = Inl (Error None (msg_Unterschrift @ m))" by blast
    then have "sign_document e req pid pdfData pdfDoc w1 =
        (w1, Response 500 (ErrorJson (msg_Vertragsunterschrift @ msg_Unterschrift @ m)))"
      by (simp add: sign_document_def)
    with api w1 c show ?thesis by auto
  next
    assume a: "c = SignWithdrawal \<and> withdrawalAccepted req \<and>
          \<not> isl (addSignatureToDoc e pdfDoc (call_config e SignContract)
                   (call_signatureData req SignContract) (call_fields e req SignContract))"
    then obtain doc1 where d1: "addSignatureToDoc e pdfDoc (contractSignatureCfg (pdfConfig e))
        (contractSignatureData req) (contractFields e req) = Inr doc1"
      by (cases "addSignatureToDoc e pdfDoc (contractSignatureCfg (pdfConfig e))
        (contractSignatureData req) (contractFields e req)") auto
    from a f have "keyboardSignature (withdrawalFields e req) = Some k" by simp
    from addSignatureToDoc_unreadable[OF this assms(3,4)] obtain m where
      "addSignatureToDoc e doc1 (withdrawalSignatureCfg (pdfConfig e)) (withdrawalSignatureData req)
         (withdrawalFields e req) = Inl (Error None (msg_Unterschrift @ m))" by blast
    then have "sign_document e req pid pdfData pdfDoc w1 =
        (w1, Response 500 (ErrorJson (msg_Widerrufsunterschrift @ msg_Unterschrift @ m)))"
      using a by (simp add: sign_document_def d1)
    with api w1 a show ?thesis by auto
  qed
qed

text \<open>
  Claim C3, at a typed signature in the decorative font whose file is missing while the
  file of the other font is there: \<open>addSignatureToPage\<close> rethrows the error of the read of
  line 127, whose bytes it never uses, and \<open>/api/sign\<close> answers status 500 without
  uploading, instead of composing with the fallback font.  With the other font chosen,
  in the same environment, the request is signed.
\<close>

theorem missing_decorative_font_aborts:
  "fs_readFile missing_decorative_env
     (fontPath missing_decorative_env (KeyboardSignature ''Jane Doe'' ''DancingScript-Regular'')) =
     Inl (Error None ''ENOENT: no such file or directory'') \<and>
   fs_readFile missing_decorative_env
     (fontPath missing_decorative_env (KeyboardSignature ''Jane Doe'' ''BarlowSemiCondensed-Regular'')) =
     Inr ''barlow'' \<and>
   addSignatureToPage missing_decorative_env (Some []) (contractSignatureCfg example_config)
     (contractSignatureData (typed_request ''DancingScript-Regular''))
     (contractFields missing_decorative_env (typed_request ''DancingScript-Regular'')) =
     Inl (Error None (msg_Unterschrift @ ''ENOENT: no such file or directory'')) \<and>
   api_sign missing_decorative_env (typed_request ''DancingScript-Regular'') example_world =
     (example_world\<lparr>gcs_calls := [Download ''docs'' ''uploads/uploaded_id1.pdf'']\<rparr>,
      Response 500 (ErrorJson (msg_Vertragsunterschrift @ msg_Unterschrift @
                                ''ENOENT: no such file or directory''))) \<and>
   api_sign missing_decorative_env (typed_request ''BarlowSemiCondensed-Regular'') example_world =
     (example_world
        \<lparr>gcs_calls := [Download ''docs'' ''uploads/uploaded_id1.pdf'',
                       Save ''docs'' ''signed/signed_id1.pdf'' ''%PDF-signed''],
         webhook_calls := [SignedHook ''gs://docs/signed/signed_id1.pdf'' (Some ''Jane Doe'')
                             (Some ''j@x.com'') (Some ''Berlin'') (Some ''Jane'') None None False
                             ''2026-11-03T00:00:00.000Z'']\<rparr>,
      Response 200 (PdfUrlJson ''gs://docs/signed/signed_id1.pdf''))"
  by (simp add: handler_defs compose_defs example_defs Let_def)

theorem missing_decorative_font_aborts_witness:
  "status (snd (api_sign missing_decorative_env (typed_request ''DancingScript-Regular'')
                  example_world)) = 500 \<and>
   status (snd (api_sign missing_decorative_env (typed_request ''BarlowSemiCondensed-Regular'')
                  example_world)) = 200"
  using missing_decorative_font_aborts by simp

text \<open>
  A name that Helvetica cannot encode aborts the contract block at the first field line,
  and a \<open>pdfId\<close> that names a property every object inherits is answered with status 500,
  not 404.
\<close>

lemma example_unencodable_name:
  "api_sign example_env unencodable_name_request example_world =
     (example_world\<lparr>gcs_calls := [Download ''docs'' ''uploads/uploaded_id1.pdf'']\<rparr>,
      Response 500 (ErrorJson (msg_Vertragsunterschrift @ msg_Unterschrift @
                                ''WinAnsi cannot encode (0x0001)'')))"
  by (simp add: handler_defs compose_defs example_defs Let_def)

lemma example_inherited_key:
  "api_sign example_env (example_request\<lparr>pdfId := Some ''constructor''\<rparr>) example_world =
     (example_world, Response 500 (ErrorJson msg_Speicherort)) \<and>
   api_sign example_env (example_request\<lparr>pdfId := Some ''id2''\<rparr>) example_world =
     (example_world, Response 404 (ErrorJson msg_nicht_gefunden))"
  by (simp add: handler_defs example_defs)

end
